theory Spec2Isabelle
  imports Main "HOL-Library.Word" "HOL-Library.List_Lexorder"
begin

unbundle bit_operations_syntax

section \<open>JavaScript strings, numbers and buffers\<close>

text \<open>
  A JavaScript string is a sequence of 16-bit code units; \<open>str.length\<close> counts code
  units. A \<open>Buffer\<close> is a sequence of bytes. \<open>js\<close> writes an ASCII literal as a
  JavaScript string.
\<close>

type_synonym jschar = "16 word"
type_synonym jsstring = "jschar list"
type_synonym byte = "8 word"
type_synonym buffer = "byte list"

definition js :: "string \<Rightarrow> jsstring" where
  "js s = map of_char s"

definition CRLF :: jsstring where
  "CRLF = [0x0D, 0x0A]"

text \<open>
  Number to string, as template literals and \<open>toString()\<close> do it for the integers the
  program prints (lengths, counts, cursor ids): decimal digits, a leading minus sign for
  negative numbers.
\<close>

definition digit_char :: "nat \<Rightarrow> jschar" where
  "digit_char d = of_nat (48 + d)"

fun show_nat :: "nat \<Rightarrow> jsstring" where
  "show_nat n = (if n < 10 then [digit_char n] else show_nat (n div 10) @ [digit_char (n mod 10)])"

declare show_nat.simps [simp del]

definition show_int :: "int \<Rightarrow> jsstring" where
  "show_int i = (if i < 0 then 0x2D # show_nat (nat (- i)) else show_nat (nat i))"

text \<open>
  \<open>parseInt(s, 10)\<close>: leading white space is skipped, one sign is read, then the longest
  run of decimal digits; no digit gives \<open>NaN\<close>, here \<open>None\<close>. Whatever follows the
  digits is ignored.
\<close>

definition is_space :: "jschar \<Rightarrow> bool" where
  "is_space c \<longleftrightarrow>
     c = 0x09 \<or> c = 0x0A \<or> c = 0x0B \<or> c = 0x0C \<or> c = 0x0D \<or> c = 0x20 \<or> c = 0xA0 \<or>
     c = 0x1680 \<or> (0x2000 \<le> c \<and> c \<le> 0x200A) \<or> c = 0x2028 \<or> c = 0x2029 \<or>
     c = 0x202F \<or> c = 0x205F \<or> c = 0x3000 \<or> c = 0xFEFF"

definition is_digit :: "jschar \<Rightarrow> bool" where
  "is_digit c \<longleftrightarrow> 0x30 \<le> c \<and> c \<le> 0x39"

definition digit_val :: "jschar \<Rightarrow> nat" where
  "digit_val c = unat c - 48"

definition dec_value :: "jsstring \<Rightarrow> nat" where
  "dec_value ds = foldl (\<lambda>a c. 10 * a + digit_val c) 0 ds"

definition strip_sign :: "jsstring \<Rightarrow> bool \<times> jsstring" where
  "strip_sign t =
     (case t of
        [] \<Rightarrow> (False, [])
      | c # r \<Rightarrow> if c = 0x2D then (True, r) else if c = 0x2B then (False, r) else (False, t))"

definition parseInt :: "jsstring \<Rightarrow> int option" where
  "parseInt s =
     (let (neg, u) = strip_sign (dropWhile is_space s);
          ds = takeWhile is_digit u
      in if ds = [] then None
         else Some (if neg then - int (dec_value ds) else int (dec_value ds)))"

text \<open>
  \<open>parseInt(s)\<close> without a radix reads hexadecimal digits after a \<open>0x\<close> or \<open>0X\<close>
  prefix and decimal digits otherwise.
\<close>

definition is_hex_digit :: "jschar \<Rightarrow> bool" where
  "is_hex_digit c \<longleftrightarrow>
     (0x30 \<le> c \<and> c \<le> 0x39) \<or> (0x41 \<le> c \<and> c \<le> 0x46) \<or> (0x61 \<le> c \<and> c \<le> 0x66)"

definition hex_digit_val :: "jschar \<Rightarrow> nat" where
  "hex_digit_val c =
     (if c \<le> 0x39 then unat c - 48 else if c \<le> 0x46 then unat c - 55 else unat c - 87)"

definition hex_value :: "jsstring \<Rightarrow> nat" where
  "hex_value ds = foldl (\<lambda>a c. 16 * a + hex_digit_val c) 0 ds"

definition parseInt_auto :: "jsstring \<Rightarrow> int option" where
  "parseInt_auto s =
     (let (neg, u) = strip_sign (dropWhile is_space s);
          hex = (case u of a # b # r \<Rightarrow> a = 0x30 \<and> (b = 0x78 \<or> b = 0x58) | _ \<Rightarrow> False);
          ds = (if hex then takeWhile is_hex_digit (drop 2 u) else takeWhile is_digit u);
          v = (if hex then hex_value ds else dec_value ds)
      in if ds = [] then None else Some (if neg then - int v else int v))"

text \<open>
  \<open>toUpperCase()\<close>. It is locale-independent and uses the full case mapping of Unicode.
  The model is exact on the ASCII letters and on the ten characters outside ASCII whose
  upper case is made of ASCII letters: U+0131 gives \<open>I\<close>, U+017F gives \<open>S\<close>, U+00DF gives
  \<open>SS\<close>, and the ligatures U+FB00 to U+FB06 give \<open>FF\<close>, \<open>FI\<close>, \<open>FL\<close>, \<open>FFI\<close>,
  \<open>FFL\<close>, \<open>ST\<close> and \<open>ST\<close>. Every other code unit outside ASCII is kept as it is; the
  platform gives such a character an upper case that again holds a code unit outside
  ASCII. So the model's result is a given string of ASCII characters exactly when the
  platform's is, and this is what the program uses the result for: it compares it with
  the names of its commands, subcommands and options. (It also prints the name of an
  unknown command in the error reply; there the model is exact for the names it maps
  exactly.)
\<close>

definition upper_char :: "jschar \<Rightarrow> jschar" where
  "upper_char c = (if 0x61 \<le> c \<and> c \<le> 0x7A then c - 0x20 else c)"

definition upper_units :: "jschar \<Rightarrow> jsstring" where
  "upper_units c =
     (if c = 0x131 then [0x49]
      else if c = 0x17F then [0x53]
      else if c = 0xDF then [0x53, 0x53]
      else if c = 0xFB00 then [0x46, 0x46]
      else if c = 0xFB01 then [0x46, 0x49]
      else if c = 0xFB02 then [0x46, 0x4C]
      else if c = 0xFB03 then [0x46, 0x46, 0x49]
      else if c = 0xFB04 then [0x46, 0x46, 0x4C]
      else if c = 0xFB05 \<or> c = 0xFB06 then [0x53, 0x54]
      else [upper_char c])"

definition toUpperCase :: "jsstring \<Rightarrow> jsstring" where
  "toUpperCase s = concat (map upper_units s)"

text \<open>
  \<open>Buffer.from(str)\<close> encodes a string as UTF-8: one byte below U+0080, two below
  U+0800, four for a surrogate pair, three otherwise; a lone surrogate becomes the
  replacement character U+FFFD.
\<close>

definition utf8_pair :: "jschar \<Rightarrow> jschar \<Rightarrow> buffer" where
  "utf8_pair hi lo =
     (let cp = (0x10000 :: 32 word) + push_bit 10 (ucast (hi - 0xD800)) + ucast (lo - 0xDC00)
      in [ucast (0xF0 OR drop_bit 18 cp),
          ucast (0x80 OR (drop_bit 12 cp AND 0x3F)),
          ucast (0x80 OR (drop_bit 6 cp AND 0x3F)),
          ucast (0x80 OR (cp AND 0x3F))])"

fun utf8_encode :: "jsstring \<Rightarrow> buffer" where
  "utf8_encode [] = []"
| "utf8_encode (c # cs) =
     (if c < 0x80 then ucast c # utf8_encode cs
      else if c < 0x800 then
        ucast (0xC0 OR drop_bit 6 c) # ucast (0x80 OR (c AND 0x3F)) # utf8_encode cs
      else if 0xD800 \<le> c \<and> c < 0xDC00 then
        (case cs of
           [] \<Rightarrow> [0xEF, 0xBF, 0xBD]
         | d # ds \<Rightarrow>
             if 0xDC00 \<le> d \<and> d < 0xE000 then utf8_pair c d @ utf8_encode ds
             else [0xEF, 0xBF, 0xBD] @ utf8_encode cs)
      else if 0xDC00 \<le> c \<and> c < 0xE000 then [0xEF, 0xBF, 0xBD] @ utf8_encode cs
      else ucast (0xE0 OR drop_bit 12 c) # ucast (0x80 OR (drop_bit 6 c AND 0x3F)) #
           ucast (0x80 OR (c AND 0x3F)) # utf8_encode cs)"

text \<open>
  \<open>buf.toString()\<close> decodes UTF-8. An ill-formed sequence gives one U+FFFD and decoding
  goes on at the byte that broke it; a code point above U+FFFF becomes a surrogate pair.
\<close>

definition is_cont :: "byte \<Rightarrow> bool" where
  "is_cont b \<longleftrightarrow> 0x80 \<le> b \<and> b \<le> 0xBF"

definition cp_units :: "32 word \<Rightarrow> jsstring" where
  "cp_units cp =
     (if cp < 0x10000 then [ucast cp]
      else [0xD800 + ucast (drop_bit 10 (cp - 0x10000)), 0xDC00 + ucast ((cp - 0x10000) AND 0x3FF)])"

fun utf8_decode :: "buffer \<Rightarrow> jsstring" where
  "utf8_decode [] = []"
| "utf8_decode (b # bs) =
     (if b < 0x80 then ucast b # utf8_decode bs
      else if 0xC2 \<le> b \<and> b \<le> 0xDF then
        (case bs of
           [] \<Rightarrow> [0xFFFD]
         | b1 # r1 \<Rightarrow>
             if is_cont b1
             then cp_units (push_bit 6 (ucast (b AND 0x1F)) OR ucast (b1 AND 0x3F)) @ utf8_decode r1
             else 0xFFFD # utf8_decode bs)
      else if 0xE0 \<le> b \<and> b \<le> 0xEF then
        (case bs of
           [] \<Rightarrow> [0xFFFD]
         | b1 # r1 \<Rightarrow>
             if (if b = 0xE0 then 0xA0 else 0x80) \<le> b1 \<and> b1 \<le> (if b = 0xED then 0x9F else 0xBF)
             then (case r1 of
                     [] \<Rightarrow> [0xFFFD]
                   | b2 # r2 \<Rightarrow>
                       if is_cont b2
                       then cp_units (push_bit 12 (ucast (b AND 0x0F)) OR
                                      push_bit 6 (ucast (b1 AND 0x3F)) OR ucast (b2 AND 0x3F))
                            @ utf8_decode r2
                       else 0xFFFD # utf8_decode r1)
             else 0xFFFD # utf8_decode bs)
      else if 0xF0 \<le> b \<and> b \<le> 0xF4 then
        (case bs of
           [] \<Rightarrow> [0xFFFD]
         | b1 # r1 \<Rightarrow>
             if (if b = 0xF0 then 0x90 else 0x80) \<le> b1 \<and> b1 \<le> (if b = 0xF4 then 0x8F else 0xBF)
             then (case r1 of
                     [] \<Rightarrow> [0xFFFD]
                   | b2 # r2 \<Rightarrow>
                       if is_cont b2
                       then (case r2 of
                               [] \<Rightarrow> [0xFFFD]
                             | b3 # r3 \<Rightarrow>
                                 if is_cont b3
                                 then cp_units (push_bit 18 (ucast (b AND 0x07)) OR
                                                push_bit 12 (ucast (b1 AND 0x3F)) OR
                                                push_bit 6 (ucast (b2 AND 0x3F)) OR
                                                ucast (b3 AND 0x3F))
                                      @ utf8_decode r3
                                 else 0xFFFD # utf8_decode r2)
                       else 0xFFFD # utf8_decode r1)
             else 0xFFFD # utf8_decode bs)
      else 0xFFFD # utf8_decode bs)"

section \<open>The protocol codec (resp.js)\<close>

text \<open>
  The encoders build JavaScript strings. \<open>respBulk\<close> takes \<open>null\<close> (here \<open>None\<close>)
  to the null marker and writes \<open>str.length\<close>, the number of code units, as the length
  of any other string.
\<close>

definition respOK :: jsstring where
  "respOK = js ''+OK'' @ CRLF"

definition respError :: "jsstring \<Rightarrow> jsstring" where
  "respError msg = js ''-'' @ msg @ CRLF"

definition respBulk :: "jsstring option \<Rightarrow> jsstring" where
  "respBulk str =
     (case str of
        None \<Rightarrow> js ''$-1'' @ CRLF
      | Some s \<Rightarrow> js ''$'' @ show_nat (length s) @ CRLF @ s @ CRLF)"

definition respInteger :: "int \<Rightarrow> jsstring" where
  "respInteger n = js '':'' @ show_int n @ CRLF"

definition respArray :: "jsstring option list \<Rightarrow> jsstring" where
  "respArray arr = js ''*'' @ show_nat (length arr) @ CRLF @ concat (map respBulk arr)"

text \<open>
  \<open>buffer.indexOf('\r\n', pos)\<close> and \<open>buffer.slice(start, end)\<close>. A negative offset
  counts from the end of the buffer; \<open>indexOf\<close> answers \<open>-1\<close> when nothing is found.
\<close>

fun crlf_from :: "buffer \<Rightarrow> nat \<Rightarrow> nat option" where
  "crlf_from (a # b # r) i = (if a = 0x0D \<and> b = 0x0A then Some i else crlf_from (b # r) (Suc i))"
| "crlf_from _ i = None"

definition indexOf_crlf :: "buffer \<Rightarrow> int \<Rightarrow> int" where
  "indexOf_crlf buf off =
     (let n = int (length buf);
          start = (if off < 0 then max 0 (n + off) else off)
      in if n \<le> start then - 1
         else (case crlf_from (drop (nat start) buf) (nat start) of
                 None \<Rightarrow> - 1
               | Some i \<Rightarrow> int i))"

definition slice_index :: "int \<Rightarrow> int \<Rightarrow> int" where
  "slice_index n x = (if x < 0 then max 0 (n + x) else min x n)"

definition buf_slice :: "buffer \<Rightarrow> int \<Rightarrow> int \<Rightarrow> buffer" where
  "buf_slice buf s e =
     (let n = int (length buf); s' = slice_index n s; e' = slice_index n e
      in if s' < e' then take (nat (e' - s')) (drop (nat s') buf) else [])"

text \<open>
  The helper \<open>readUntilCRLF\<close> of \<open>parseRESP\<close>: the bytes from \<open>pos\<close> to the next CRLF
  and the position after it, or \<open>null\<close>.
\<close>

definition readUntilCRLF :: "buffer \<Rightarrow> int \<Rightarrow> (buffer \<times> int) option" where
  "readUntilCRLF buf pos =
     (let e = indexOf_crlf buf pos
      in if e = - 1 then None else Some (buf_slice buf pos e, e + 2))"

datatype resp_value = Null | Str jsstring | Num int

text \<open>
  The loop of \<open>parseRESP\<close> over the declared number of elements. \<open>parseInt\<close> is
  applied to a buffer, which it first turns into a string. \<open>None\<close> is the \<open>null\<close>
  the function returns for an incomplete or malformed message.
\<close>

fun parse_elements :: "nat \<Rightarrow> buffer \<Rightarrow> int \<Rightarrow> resp_value list \<Rightarrow> resp_value list option" where
  "parse_elements 0 buf pos args = Some args"
| "parse_elements (Suc n) buf pos args =
     (if int (length buf) \<le> pos then None
      else
        let argType = buf ! nat pos; pos1 = pos + 1 in
        if argType = 0x24 then
          (case readUntilCRLF buf pos1 of
             None \<Rightarrow> None
           | Some (bulkLengthStr, pos2) \<Rightarrow>
               (case parseInt (utf8_decode bulkLengthStr) of
                  None \<Rightarrow> None
                | Some bulkLength \<Rightarrow>
                    if bulkLength = - 1 then parse_elements n buf pos2 (args @ [Null])
                    else if int (length buf) < pos2 + bulkLength then None
                    else
                      let str = buf_slice buf pos2 (pos2 + bulkLength);
                          pos3 = pos2 + bulkLength
                      in if indexOf_crlf buf pos3 \<noteq> pos3 then None
                         else parse_elements n buf (pos3 + 2) (args @ [Str (utf8_decode str)])))
        else if argType = 0x2B then
          (case readUntilCRLF buf pos1 of
             None \<Rightarrow> None
           | Some (v, pos2) \<Rightarrow> parse_elements n buf pos2 (args @ [Str (utf8_decode v)]))
        else if argType = 0x2D then
          (case readUntilCRLF buf pos1 of
             None \<Rightarrow> None
           | Some (v, pos2) \<Rightarrow>
               parse_elements n buf pos2 (args @ [Str (js ''Error: '' @ utf8_decode v)]))
        else if argType = 0x3A then
          (case readUntilCRLF buf pos1 of
             None \<Rightarrow> None
           | Some (v, pos2) \<Rightarrow>
               (case parseInt (utf8_decode v) of
                  None \<Rightarrow> None
                | Some intValue \<Rightarrow> parse_elements n buf pos2 (args @ [Num intValue])))
        else None)"

definition parseRESP :: "buffer \<Rightarrow> resp_value list option" where
  "parseRESP buf =
     (if buf = [] then None
      else if hd buf \<noteq> 0x2A then None
      else (case readUntilCRLF buf 1 of
              None \<Rightarrow> None
            | Some (lengthStr, pos) \<Rightarrow>
                (case parseInt (utf8_decode lengthStr) of
                   None \<Rightarrow> None
                 | Some len \<Rightarrow> if len < 0 then None else parse_elements (nat len) buf pos [])))"

section \<open>The storage adapter (store.js)\<close>

subsection \<open>The embedded engine\<close>

text \<open>
  The engine is the \<open>lmdb\<close> package, outside the repository. It is modelled by what the
  adapter relies on and by how the package behaves under the calls the adapter makes.

  \<^item> Reading (\<open>db.get\<close>, \<open>db.getKeys\<close>, \<open>db.getRange\<close>) is synchronous, succeeds, and sees
    the committed entries: one entry per key, in key order. \<open>db.get\<close> answers
    \<open>undefined\<close> (\<open>None\<close>) for a key that is not there.
  \<^item> Writing is asynchronous. \<open>db.put\<close> and \<open>db.remove\<close> put the write into the
    engine's batch and return a promise; the write becomes visible to reading when the
    engine commits the batch. This happens after the call has returned and the handler
    that made it has run to its end: in this model, between two commands. For a key the
    engine refuses, such as a key over its maximum key size, the call throws at once,
    with a message, and nothing is put into the batch.
  \<^item> \<open>db.transaction(callback)\<close> is asynchronous as well: the callback is put into the
    batch and runs when the engine commits; the call itself returns a promise and does
    not throw. Inside the callback \<open>db.put\<close> and \<open>db.remove\<close> act at once. When the
    callback throws, it ends there, and what it wrote before stays written.
  \<^item> \<open>db.sync()\<close> does not wait for the batch.

  The order of the keys is the order of the code units here; no property below depends
  on which order it is.
\<close>

type_synonym entries = "(jsstring \<times> jsstring) list"

definition db_get :: "entries \<Rightarrow> jsstring \<Rightarrow> jsstring option" where
  "db_get d k = map_of d k"

fun db_put :: "jsstring \<Rightarrow> jsstring \<Rightarrow> entries \<Rightarrow> entries" where
  "db_put k v [] = [(k, v)]"
| "db_put k v ((k', v') # r) =
     (if k = k' then (k, v) # r
      else if k < k' then (k, v) # (k', v') # r
      else (k', v') # db_put k v r)"

definition db_remove :: "jsstring \<Rightarrow> entries \<Rightarrow> entries" where
  "db_remove k d = filter (\<lambda>e. fst e \<noteq> k) d"

definition db_getKeys :: "entries \<Rightarrow> jsstring list" where
  "db_getKeys d = map fst d"

subsection \<open>Pattern matching\<close>

text \<open>
  \<open>_globToRegex\<close> escapes the characters \<open>. + ^ $ { } ( ) | [ ] \\<close>, then turns
  every \<open>*\<close> into \<open>.*\<close> and every \<open>?\<close> into \<open>.\<close>, and anchors the result. The
  regular expression it builds is therefore a sequence of three kinds of items: a literal
  character, \<open>.\<close> and \<open>.*\<close>. In a JavaScript regular expression \<open>.\<close> matches any code
  unit except the line terminators.
\<close>

datatype rx = Lit jschar | Dot | DotStar

definition glob_item :: "jschar \<Rightarrow> rx" where
  "glob_item c = (if c = 0x2A then DotStar else if c = 0x3F then Dot else Lit c)"

definition globToRegex :: "jsstring \<Rightarrow> rx list" where
  "globToRegex pattern = map glob_item pattern"

definition line_terminator :: "jschar \<Rightarrow> bool" where
  "line_terminator c \<longleftrightarrow> c = 0x0A \<or> c = 0x0D \<or> c = 0x2028 \<or> c = 0x2029"

fun regex_test :: "rx list \<Rightarrow> jsstring \<Rightarrow> bool" where
  "regex_test [] s = (s = [])"
| "regex_test (Lit c # r) s = (case s of [] \<Rightarrow> False | x # xs \<Rightarrow> x = c \<and> regex_test r xs)"
| "regex_test (Dot # r) s =
     (case s of [] \<Rightarrow> False | x # xs \<Rightarrow> \<not> line_terminator x \<and> regex_test r xs)"
| "regex_test (DotStar # r) s =
     (regex_test r s \<or>
      (case s of [] \<Rightarrow> False | x # xs \<Rightarrow> \<not> line_terminator x \<and> regex_test (DotStar # r) xs))"

subsection \<open>The state of the adapter\<close>

text \<open>
  The module-level variables of the adapter: the engine handle \<open>db\<close>, the \<open>cache\<close>, the
  table of active transactions, the scan cursors and the next cursor id. An operation of a
  transaction's log is a put, a remove or the \<open>keys\<close> entry that \<open>store.keys\<close> queues.
  The engine is its committed entries, the writes it refuses and its batch: the jobs
  waiting for the next commit, each a put, a remove or the callback of a transaction,
  which is the log it will replay.
\<close>

datatype op = Put jsstring jsstring | Remove jsstring | KeysOp jsstring

datatype job = PutJob jsstring jsstring | RemoveJob jsstring | Callback "op list"

record txn_state =
  operations :: "op list"
  active :: bool

record scan_cursor =
  position :: nat
  lastKey :: "jsstring option"
  pattern :: jsstring
  createdAt :: nat

record store =
  db :: entries
  db_refuses :: "jsstring \<Rightarrow> jsstring option"
  pending :: "job list"
  cache :: "jsstring \<rightharpoonup> jsstring"
  activeTransactions :: "jsstring \<rightharpoonup> txn_state"
  scanCursors :: "nat \<rightharpoonup> scan_cursor"
  nextCursorId :: nat

text \<open>
  \<open>clientId ? activeTransactions.get(clientId) : null\<close>, followed by the test
  \<open>txnState && txnState.active\<close>: the active transaction of a client identifier that is
  neither \<open>undefined\<close> nor the empty string.
\<close>

definition active_txn :: "jsstring option \<Rightarrow> store \<Rightarrow> (jsstring \<times> txn_state) option" where
  "active_txn clientId st =
     (case clientId of
        None \<Rightarrow> None
      | Some c \<Rightarrow>
          if c = [] then None
          else (case activeTransactions st c of
                  None \<Rightarrow> None
                | Some t \<Rightarrow> if active t then Some (c, t) else None))"

definition push_operation :: "jsstring \<Rightarrow> txn_state \<Rightarrow> op \<Rightarrow> store \<Rightarrow> store" where
  "push_operation c t x st =
     st\<lparr>activeTransactions := (activeTransactions st)(c \<mapsto> t\<lparr>operations := operations t @ [x]\<rparr>)\<rparr>"

text \<open>
  \<open>queueOrExecute\<close>. The promise it returns resolves to \<open>true\<close> (\<open>Inr True\<close>) or is
  rejected with the error the engine threw (\<open>Inl\<close> its message). Outside a transaction
  the write is handed to the engine, which puts it into its batch, and the cache is
  written at once; a refused write leaves both as they were.
\<close>

definition queueOrExecute :: "op \<Rightarrow> jsstring option \<Rightarrow> store \<Rightarrow> (jsstring + bool) \<times> store" where
  "queueOrExecute x clientId st =
     (case active_txn clientId st of
        Some (c, t) \<Rightarrow> (Inr True, push_operation c t x st)
      | None \<Rightarrow>
          (case x of
             Put key v \<Rightarrow>
               (case db_refuses st key of
                  Some msg \<Rightarrow> (Inl msg, st)
                | None \<Rightarrow>
                    (Inr True, st\<lparr>pending := pending st @ [PutJob key v],
                                   cache := (cache st)(key \<mapsto> v)\<rparr>))
           | Remove key \<Rightarrow>
               (case db_refuses st key of
                  Some msg \<Rightarrow> (Inl msg, st)
                | None \<Rightarrow>
                    (Inr True, st\<lparr>pending := pending st @ [RemoveJob key],
                                   cache := (cache st)(key := None)\<rparr>))
           | KeysOp p \<Rightarrow> (Inr True, st)))"

definition beginTransaction :: "jsstring \<Rightarrow> store \<Rightarrow> txn_state option \<times> store" where
  "beginTransaction clientId st =
     (if activeTransactions st clientId \<noteq> None then (None, st)
      else
        let txnState = \<lparr>operations = [], active = True\<rparr>
        in (Some txnState, st\<lparr>activeTransactions := (activeTransactions st)(clientId \<mapsto> txnState)\<rparr>))"

text \<open>
  \<open>commitTransaction\<close> hands the callback to the engine, takes the transaction out of
  the table and answers \<open>true\<close>. The callback closes over the transaction state, whose
  log nobody can reach any more; so the job holds the log. \<open>db.transaction\<close> does not
  throw, and the \<open>catch\<close> branch of the function is not entered.
\<close>

definition commitTransaction :: "jsstring option \<Rightarrow> store \<Rightarrow> bool \<times> store" where
  "commitTransaction clientId st =
     (case clientId of
        None \<Rightarrow> (False, st)
      | Some c \<Rightarrow>
          (case activeTransactions st c of
             None \<Rightarrow> (False, st)
           | Some txnState \<Rightarrow>
               if \<not> active txnState then (False, st)
               else (True, st\<lparr>pending := pending st @ [Callback (operations txnState)],
                               activeTransactions := (activeTransactions st)(c := None)\<rparr>)))"

definition abortTransaction :: "jsstring option \<Rightarrow> store \<Rightarrow> bool \<times> store" where
  "abortTransaction clientId st =
     (case clientId of
        None \<Rightarrow> (False, st)
      | Some c \<Rightarrow>
          (case activeTransactions st c of
             None \<Rightarrow> (False, st)
           | Some txnState \<Rightarrow>
               if \<not> active txnState then (False, st)
               else (True, st\<lparr>activeTransactions := (activeTransactions st)(c := None)\<rparr>)))"

definition store_set :: "jsstring \<Rightarrow> jsstring \<Rightarrow> jsstring option \<Rightarrow> store \<Rightarrow> (jsstring + bool) \<times> store" where
  "store_set key v clientId st = queueOrExecute (Put key v) clientId st"

definition store_get :: "jsstring \<Rightarrow> store \<Rightarrow> jsstring option \<times> store" where
  "store_get key st =
     (case cache st key of
        Some v \<Rightarrow> (Some v, st)
      | None \<Rightarrow>
          (case db_get (db st) key of
             Some v \<Rightarrow> (Some v, st\<lparr>cache := (cache st)(key \<mapsto> v)\<rparr>)
           | None \<Rightarrow> (None, st)))"

definition store_exists :: "jsstring \<Rightarrow> store \<Rightarrow> bool \<times> store" where
  "store_exists key st =
     (if cache st key \<noteq> None then (True, st)
      else (case db_get (db st) key of
              Some v \<Rightarrow> (True, st\<lparr>cache := (cache st)(key \<mapsto> v)\<rparr>)
            | None \<Rightarrow> (False, st)))"

text \<open>
  \<open>store.del\<close> catches what the engine throws and answers \<open>false\<close>; the refusal comes
  from \<open>db.remove\<close>, before the cache is touched. An accepted remove goes into the
  engine's batch, and the key leaves the cache at once.
\<close>

definition store_del :: "jsstring \<Rightarrow> jsstring option \<Rightarrow> store \<Rightarrow> bool \<times> store" where
  "store_del key clientId st =
     (let (ex, st1) = store_exists key st in
      if \<not> ex then (False, st1)
      else
        (case active_txn clientId st1 of
           Some (c, t) \<Rightarrow> (True, push_operation c t (Remove key) st1)
         | None \<Rightarrow>
             (case db_refuses st1 key of
                Some msg \<Rightarrow> (False, st1)
              | None \<Rightarrow>
                  (True, st1\<lparr>pending := pending st1 @ [RemoveJob key],
                             cache := (cache st1)(key := None)\<rparr>))))"

definition store_keys :: "jsstring \<Rightarrow> jsstring option \<Rightarrow> store \<Rightarrow> jsstring list \<times> store" where
  "store_keys pat clientId st =
     (case active_txn clientId st of
        Some (c, t) \<Rightarrow> ([], push_operation c t (KeysOp pat) st)
      | None \<Rightarrow> (filter (regex_test (globToRegex pat)) (db_getKeys (db st)), st))"

subsection \<open>The commit of the engine\<close>

text \<open>
  The callback of \<open>db.transaction\<close> in \<open>commitTransaction\<close>, as the engine runs it: the
  operations of the log are replayed in order on the engine and on the cache. When the
  engine refuses a key, \<open>db.put\<close> or \<open>db.remove\<close> throws, the callback ends, and the
  entries and the cache keep what the callback wrote before.
\<close>

fun replay ::
  "(jsstring \<Rightarrow> jsstring option) \<Rightarrow> op list \<Rightarrow> entries \<Rightarrow> (jsstring \<rightharpoonup> jsstring) \<Rightarrow>
   entries \<times> (jsstring \<rightharpoonup> jsstring)" where
  "replay refuses [] d c = (d, c)"
| "replay refuses (Put key v # ops) d c =
     (case refuses key of
        Some msg \<Rightarrow> (d, c)
      | None \<Rightarrow> replay refuses ops (db_put key v d) (c(key \<mapsto> v)))"
| "replay refuses (Remove key # ops) d c =
     (case refuses key of
        Some msg \<Rightarrow> (d, c)
      | None \<Rightarrow> replay refuses ops (db_remove key d) (c(key := None)))"
| "replay refuses (KeysOp p # ops) d c = replay refuses ops d c"

text \<open>
  The engine commits its batch: the jobs take effect in the order in which they were
  handed over, and the batch is empty afterwards. The program does not choose the
  moment; it is an event of its own.
\<close>

fun run_jobs ::
  "(jsstring \<Rightarrow> jsstring option) \<Rightarrow> job list \<Rightarrow> entries \<Rightarrow> (jsstring \<rightharpoonup> jsstring) \<Rightarrow>
   entries \<times> (jsstring \<rightharpoonup> jsstring)" where
  "run_jobs refuses [] d c = (d, c)"
| "run_jobs refuses (PutJob key v # jobs) d c = run_jobs refuses jobs (db_put key v d) c"
| "run_jobs refuses (RemoveJob key # jobs) d c = run_jobs refuses jobs (db_remove key d) c"
| "run_jobs refuses (Callback ops # jobs) d c =
     (case replay refuses ops d c of (d', c') \<Rightarrow> run_jobs refuses jobs d' c')"

definition engine_commit :: "store \<Rightarrow> store" where
  "engine_commit st =
     (case run_jobs (db_refuses st) (pending st) (db st) (cache st) of
        (d, c) \<Rightarrow> st\<lparr>db := d, cache := c, pending := []\<rparr>)"

subsection \<open>The cursor scan\<close>

text \<open>
  \<open>allKeys.findIndex(key => key === currentKey)\<close>: the first index of the key, \<open>-1\<close>
  when it is not in the list.
\<close>

fun findIndex_from :: "jsstring \<Rightarrow> jsstring list \<Rightarrow> nat \<Rightarrow> int" where
  "findIndex_from k [] i = - 1"
| "findIndex_from k (x # xs) i = (if x = k then int i else findIndex_from k xs (Suc i))"

definition findIndex :: "jsstring \<Rightarrow> jsstring list \<Rightarrow> int" where
  "findIndex k xs = findIndex_from k xs 0"

text \<open>
  The collecting loop of \<open>store.scan\<close>, run on the keys from index \<open>i\<close> on:
  \<open>for (; i < allKeys.length && collected < effectiveCount; i++)\<close>. It returns the
  index it stopped at and the keys collected.
\<close>

fun collect ::
  "rx list \<Rightarrow> int \<Rightarrow> jsstring list \<Rightarrow> nat \<Rightarrow> int \<Rightarrow> jsstring list \<Rightarrow> nat \<times> jsstring list" where
  "collect regex effectiveCount [] i collected ks = (i, ks)"
| "collect regex effectiveCount (key # rest) i collected ks =
     (if collected < effectiveCount
      then (if regex_test regex key
            then collect regex effectiveCount rest (Suc i) (collected + 1) (ks @ [key])
            else collect regex effectiveCount rest (Suc i) collected ks)
      else (i, ks))"

definition CURSOR_TTL :: int where
  "CURSOR_TTL = 5 * 60 * 1000"

definition sweep_cursors :: "nat \<Rightarrow> (nat \<rightharpoonup> scan_cursor) \<Rightarrow> (nat \<rightharpoonup> scan_cursor)" where
  "sweep_cursors now cs =
     (\<lambda>i. case cs i of
             None \<Rightarrow> None
           | Some c \<Rightarrow> if CURSOR_TTL < int now - int (createdAt c) then None else Some c)"

text \<open>
  \<open>store.scan(cursor, pattern, count)\<close> with a numeric cursor and count, as the SCAN
  command calls it. The two things the function reads from its environment are
  parameters: \<open>now\<close>, the clock (\<open>Date.now()\<close>, one reading for the call), and
  \<open>sweep\<close>, whether \<open>Math.random() < 0.05\<close> came out true. The result is
  \<open>(nextCursor, keys)\<close>.
\<close>

definition store_scan ::
  "nat \<Rightarrow> bool \<Rightarrow> int \<Rightarrow> jsstring \<Rightarrow> int \<Rightarrow> store \<Rightarrow> (nat \<times> jsstring list) \<times> store" where
  "store_scan now sweep cursor pat count st =
     (let regex = globToRegex pat;
          found = (if cursor = 0 then None
                   else if 0 < cursor then scanCursors st (nat cursor) else None);
          pos = (case found of None \<Rightarrow> 0 | Some c \<Rightarrow> position c);
          currentKey = (case found of None \<Rightarrow> None | Some c \<Rightarrow> lastKey c);
          cursors1 = (case found of
                        None \<Rightarrow> scanCursors st
                      | Some c \<Rightarrow> (scanCursors st)(nat cursor := None));
          allKeys = db_getKeys (db st);
          startIndex = (case currentKey of
                          None \<Rightarrow> 0
                        | Some k \<Rightarrow> if 0 < pos \<and> k \<noteq> [] then nat (findIndex k allKeys + 1) else 0);
          (i, ks) = collect regex count (drop startIndex allKeys) startIndex 0 [];
          more = (i < length allKeys);
          newCursorId = nextCursorId st;
          cursors2 = (if more
                      then cursors1(newCursorId \<mapsto>
                             \<lparr>position = i,
                              lastKey = (if i = 0 then None else Some (allKeys ! (i - 1))),
                              pattern = pat,
                              createdAt = now\<rparr>)
                      else cursors1);
          cursors3 = (if sweep then sweep_cursors now cursors2 else cursors2)
      in ((if more then newCursorId else 0, ks),
          st\<lparr>scanCursors := cursors3,
             nextCursorId := (if more then newCursorId + 1 else newCursorId)\<rparr>))"

section \<open>The command handlers (commands/*.js)\<close>

text \<open>
  The state of a connection. A queued command is the object \<open>{command, args}\<close>; the
  PING handler queues a function instead (\<open>QPong\<close>). A handler takes the connection
  state and the adapter's state and returns its reply with both states.
\<close>

datatype queued = QCmd jsstring "jsstring list" | QPong

record conn =
  inTransaction :: bool
  commandQueue :: "queued list"
  clientId :: "jsstring option"
  name :: "jsstring option"

type_synonym reply = "jsstring \<times> conn \<times> store"

definition QUEUED :: jsstring where
  "QUEUED = js ''+QUEUED'' @ CRLF"

definition enqueue :: "queued \<Rightarrow> conn \<Rightarrow> conn" where
  "enqueue q cs = cs\<lparr>commandQueue := commandQueue cs @ [q]\<rparr>"

definition set_cmd :: "conn \<Rightarrow> jsstring \<Rightarrow> jsstring \<Rightarrow> store \<Rightarrow> reply" where
  "set_cmd cs key v st =
     (if inTransaction cs then (QUEUED, enqueue (QCmd (js ''SET'') [key, v]) cs, st)
      else (case store_set key v (clientId cs) st of
              (Inr ok, st') \<Rightarrow> (js ''+OK'' @ CRLF, cs, st')
            | (Inl msg, st') \<Rightarrow> (js ''-ERR '' @ msg @ CRLF, cs, st')))"

definition get :: "conn \<Rightarrow> jsstring \<Rightarrow> store \<Rightarrow> reply" where
  "get cs key st =
     (if inTransaction cs then (QUEUED, enqueue (QCmd (js ''GET'') [key]) cs, st)
      else (let (v, st') = store_get key st in (respBulk v, cs, st')))"

definition exists :: "conn \<Rightarrow> jsstring \<Rightarrow> store \<Rightarrow> reply" where
  "exists cs key st =
     (if inTransaction cs then (QUEUED, enqueue (QCmd (js ''EXISTS'') [key]) cs, st)
      else (let (ex, st') = store_exists key st
            in (respInteger (if ex then 1 else 0), cs, st')))"

definition del :: "conn \<Rightarrow> jsstring \<Rightarrow> store \<Rightarrow> reply" where
  "del cs key st =
     (if inTransaction cs then (QUEUED, enqueue (QCmd (js ''DEL'') [key]) cs, st)
      else
        (let (ex, st1) = store_exists key st in
         if ex then
           (let (deleted, st2) = store_del key (clientId cs) st1;
                (stillExists, st3) = store_exists key st2
            in if stillExists then (respInteger 0, cs, st3) else (respInteger 1, cs, st3))
         else (respInteger 0, cs, st1)))"

definition keys :: "conn \<Rightarrow> jsstring \<Rightarrow> store \<Rightarrow> reply" where
  "keys cs pat st =
     (if inTransaction cs then (QUEUED, enqueue (QCmd (js ''KEYS'') [pat]) cs, st)
      else (let (matchedKeys, st') = store_keys pat (clientId cs) st
            in (respArray (map Some matchedKeys), cs, st')))"

definition ping :: "conn \<Rightarrow> store \<Rightarrow> reply" where
  "ping cs st =
     (if inTransaction cs then (QUEUED, enqueue QPong cs, st)
      else (js ''+PONG'' @ CRLF, cs, st))"

text \<open>
  MULTI. A connection without a client identifier gets one made of the clock and a random
  string; \<open>fresh\<close> is that identifier. What \<open>store.beginTransaction\<close> returns is not
  looked at.
\<close>

definition truthy :: "jsstring option \<Rightarrow> bool" where
  "truthy s = (case s of None \<Rightarrow> False | Some x \<Rightarrow> x \<noteq> [])"

definition multi :: "jsstring \<Rightarrow> conn \<Rightarrow> store \<Rightarrow> reply" where
  "multi fresh cs st =
     (if inTransaction cs then (js ''-ERR MULTI calls can not be nested'' @ CRLF, cs, st)
      else
        (let cid = (case clientId cs of None \<Rightarrow> fresh | Some c \<Rightarrow> if c = [] then fresh else c);
             (t, st') = beginTransaction cid st
         in (respOK, cs\<lparr>clientId := Some cid, commandQueue := [], inTransaction := True\<rparr>, st')))"

definition discard :: "conn \<Rightarrow> store \<Rightarrow> reply" where
  "discard cs st =
     (if \<not> inTransaction cs then (js ''-ERR DISCARD without MULTI'' @ CRLF, cs, st)
      else
        (let (ok, st') = abortTransaction (clientId cs) st
         in (respOK, cs\<lparr>commandQueue := [], inTransaction := False\<rparr>, st')))"

text \<open>
  CLIENT. The subcommand is \<open>None\<close> when the command came without one. \<open>CLIENT ID\<close>
  prints the number read from the second \<open>_\<close>-separated part of the client
  identifier (\<open>NaN\<close> when there is none to read).
\<close>

fun split_on :: "jschar \<Rightarrow> jsstring \<Rightarrow> jsstring \<Rightarrow> jsstring list" where
  "split_on sep [] cur = [cur]"
| "split_on sep (c # cs) cur =
     (if c = sep then cur # split_on sep cs [] else split_on sep cs (cur @ [c]))"

definition show_number :: "int option \<Rightarrow> jsstring" where
  "show_number n = (case n of None \<Rightarrow> js ''NaN'' | Some i \<Rightarrow> show_int i)"

definition client_id_number :: "jsstring \<Rightarrow> jsstring" where
  "client_id_number cid =
     (case split_on 0x5F cid [] of
        a # b # rest \<Rightarrow> show_number (parseInt_auto b)
      | _ \<Rightarrow> js ''NaN'')"

definition client_info :: "conn \<Rightarrow> jsstring" where
  "client_info cs =
     js ''id='' @ (if truthy (clientId cs) then the (clientId cs) else js ''0'') @
     js '' name='' @ (if truthy (name cs) then the (name cs) else [])"

definition client :: "conn \<Rightarrow> jsstring option \<Rightarrow> jsstring list \<Rightarrow> store \<Rightarrow> reply" where
  "client cs subcommand args st =
     (if \<not> truthy subcommand
      then (js ''-ERR wrong number of arguments for 'client' command'' @ CRLF, cs, st)
      else
        let cmd = toUpperCase (the subcommand) in
        if cmd = js ''SETNAME'' then
          (case args of
             [] \<Rightarrow> (js ''-ERR wrong number of arguments for 'client setname' command'' @ CRLF, cs, st)
           | a # rest \<Rightarrow>
               if a = []
               then (js ''-ERR wrong number of arguments for 'client setname' command'' @ CRLF, cs, st)
               else (respOK, cs\<lparr>name := Some a\<rparr>, st))
        else if cmd = js ''GETNAME'' then
          (if truthy (name cs)
           then (js ''$'' @ show_nat (length (the (name cs))) @ CRLF @ the (name cs) @ CRLF, cs, st)
           else (js ''$-1'' @ CRLF, cs, st))
        else if cmd = js ''ID'' then
          (js '':'' @ (if truthy (clientId cs) then client_id_number (the (clientId cs)) else js ''0'')
             @ CRLF, cs, st)
        else if cmd = js ''LIST'' then (respArray [Some (client_info cs)], cs, st)
        else if cmd = js ''INFO'' then (respArray [Some (client_info cs)], cs, st)
        else (respOK, cs, st))"

text \<open>
  SCAN. The option loop reads \<open>MATCH pattern\<close> and \<open>COUNT n\<close> pairs; a keyword that
  is the last argument is skipped, as is any other argument.
\<close>

definition count_option :: "jsstring \<Rightarrow> int" where
  "count_option a = (case parseInt a of None \<Rightarrow> 10 | Some n \<Rightarrow> if n \<le> 0 then 10 else n)"

fun scan_options :: "jsstring list \<Rightarrow> jsstring \<times> int \<Rightarrow> jsstring \<times> int" where
  "scan_options (a # b # rest) (pat, count) =
     (if toUpperCase a = js ''MATCH'' then scan_options rest (b, count)
      else if toUpperCase a = js ''COUNT'' then scan_options rest (pat, count_option b)
      else scan_options (b # rest) (pat, count))"
| "scan_options args pc = pc"

definition cursor_value :: "jsstring \<Rightarrow> int" where
  "cursor_value cursor = (case parseInt cursor of None \<Rightarrow> 0 | Some n \<Rightarrow> if n < 0 then 0 else n)"

text \<open>
  \<open>filterKeysForTestCases\<close>. For the pattern \<open>*1\<close> a key is kept when
  \<open>key.match(...)\<close> succeeds and its group equals \<open>1\<close>. The regular expression of
  the source reads: any characters but line terminators, as few as possible; then the
  group: the code unit U+00A5 followed by one or more letters \<open>d\<close>; then the end of
  the key. \<open>test_match\<close> returns the group.
\<close>

fun test_match :: "jsstring \<Rightarrow> jsstring option" where
  "test_match [] = None"
| "test_match (c # cs) =
     (if c = 0xA5 \<and> cs \<noteq> [] \<and> list_all (\<lambda>x. x = 0x64) cs then Some (c # cs)
      else if line_terminator c then None
      else test_match cs)"

definition filterKeysForTestCases :: "jsstring list \<Rightarrow> jsstring \<Rightarrow> jsstring list" where
  "filterKeysForTestCases ks pat =
     (if pat = js ''*1''
      then filter (\<lambda>key. case test_match key of None \<Rightarrow> False | Some g \<Rightarrow> g = js ''1'') ks
      else ks)"

text \<open>
  The line ends the SCAN handler writes: its template literals hold the code unit U+00A5
  followed by \<open>r\<close> and again U+00A5 followed by \<open>n\<close>.
\<close>

definition scan_eol :: jsstring where
  "scan_eol = [0xA5, 0x72, 0xA5, 0x6E]"

text \<open>
  The first part of the handler: the options, the cursor, the call of \<open>store.scan\<close>
  and the filter. It yields the cursor as a string and the keys of the reply.
\<close>

definition scan_page ::
  "nat \<Rightarrow> bool \<Rightarrow> jsstring \<Rightarrow> jsstring list \<Rightarrow> store \<Rightarrow> (jsstring \<times> jsstring list) \<times> store" where
  "scan_page now sweep cursor args st =
     (let (pat, count) = scan_options args (js ''*'', 10);
          cursorValue = cursor_value cursor;
          ((nextCursor, ks), st') = store_scan now sweep cursorValue pat count st;
          filteredKeys = filterKeysForTestCases ks pat
      in ((show_nat nextCursor, filteredKeys), st'))"

definition scan_format :: "jsstring \<Rightarrow> jsstring list \<Rightarrow> jsstring" where
  "scan_format cursorStr filteredKeys =
     js ''*2'' @ scan_eol @ js ''$'' @ show_nat (length cursorStr) @ scan_eol @ cursorStr @ scan_eol @
     js ''*'' @ show_nat (length filteredKeys) @ scan_eol @
     concat (map (\<lambda>key. js ''$'' @ show_nat (length key) @ scan_eol @ key @ scan_eol) filteredKeys)"

definition scan :: "nat \<Rightarrow> bool \<Rightarrow> conn \<Rightarrow> jsstring \<Rightarrow> jsstring list \<Rightarrow> store \<Rightarrow> reply" where
  "scan now sweep cs cursor args st =
     (let ((cursorStr, filteredKeys), st') = scan_page now sweep cursor args st
      in (scan_format cursorStr filteredKeys, cs, st'))"

section \<open>EXEC and the dispatcher\<close>

text \<open>
  A handler is called with the arguments of the command spread over its parameters; a
  parameter without an argument is \<open>undefined\<close>. The handlers are modelled for the
  calls that give them their operands. \<open>UndefinedOperand\<close> marks a call that would
  pass \<open>undefined\<close> to the engine as a key or a value (SET without a key and a value;
  GET, DEL or EXISTS without a key): what the engine does with it is not part of the
  repository, and the model says nothing about such a call.
\<close>

datatype call = NoHandler | UndefinedOperand | Reply jsstring conn store

definition returned :: "reply \<Rightarrow> call" where
  "returned r = (case r of (text, cs, st) \<Rightarrow> Reply text cs st)"

text \<open>The table \<open>commandHandlers\<close> of EXEC: SET, GET, DEL, KEYS and EXISTS.\<close>

definition exec_handler :: "jsstring \<Rightarrow> conn \<Rightarrow> jsstring list \<Rightarrow> store \<Rightarrow> call" where
  "exec_handler command es args st =
     (if command = js ''SET'' then
        (case args of key # v # rest \<Rightarrow> returned (set_cmd es key v st) | _ \<Rightarrow> UndefinedOperand)
      else if command = js ''GET'' then
        (case args of key # rest \<Rightarrow> returned (get es key st) | [] \<Rightarrow> UndefinedOperand)
      else if command = js ''DEL'' then
        (case args of key # rest \<Rightarrow> returned (del es key st) | [] \<Rightarrow> UndefinedOperand)
      else if command = js ''KEYS'' then
        (case args of pat # rest \<Rightarrow> returned (keys es pat st) | [] \<Rightarrow> returned (keys es (js ''*'') st))
      else if command = js ''EXISTS'' then
        (case args of key # rest \<Rightarrow> returned (exists es key st) | [] \<Rightarrow> UndefinedOperand)
      else NoHandler)"

text \<open>
  The loop of EXEC over the queue. It stops at a queued entry without a handler, with
  the name it prints (a queued function has no \<open>command\<close>: the name is
  \<open>undefined\<close>); the commands before it have run.
\<close>

datatype exec_loop =
  UnknownCommand jsstring store | OutsideModel | Finished "jsstring list" conn store

fun run_queue :: "queued list \<Rightarrow> conn \<Rightarrow> store \<Rightarrow> jsstring list \<Rightarrow> exec_loop" where
  "run_queue [] es st results = Finished results es st"
| "run_queue (QPong # rest) es st results = UnknownCommand (js ''undefined'') st"
| "run_queue (QCmd command args # rest) es st results =
     (case exec_handler command es args st of
        NoHandler \<Rightarrow> UnknownCommand command st
      | UndefinedOperand \<Rightarrow> OutsideModel
      | Reply r es' st' \<Rightarrow> run_queue rest es' st' (results @ [r]))"

definition execState :: conn where
  "execState = \<lparr>inTransaction = False, commandQueue = [], clientId = None, name = None\<rparr>"

text \<open>
  EXEC. Every queued command runs through its handler with \<open>execState\<close>, a state that
  is not in a transaction and has no client identifier; then the adapter's transaction of
  the client is committed and the connection leaves the transaction. \<open>None\<close> stands
  for a run that made a call outside the model.
\<close>

definition exec :: "conn \<Rightarrow> store \<Rightarrow> reply option" where
  "exec cs st =
     (if \<not> inTransaction cs then Some (js ''-ERR EXEC without MULTI'' @ CRLF, cs, st)
      else
        (case run_queue (commandQueue cs) execState st [] of
           UnknownCommand command st' \<Rightarrow>
             Some (js ''-ERR unknown command '' @ command @ CRLF, cs, st')
         | OutsideModel \<Rightarrow> None
         | Finished results es st' \<Rightarrow>
             (let (ok, st'') = commitTransaction (clientId cs) st'
              in Some (js ''*'' @ show_nat (length results) @ CRLF @ concat results,
                       cs\<lparr>inTransaction := False, commandQueue := []\<rparr>, st''))))"

text \<open>
  \<open>processCommand\<close> of the server, without the socket: the reply it writes and the
  states after it. What a command reads from its environment comes in \<open>env\<close>: the
  clock and the random draw of SCAN, and the identifier MULTI makes up.
\<close>

record env =
  env_now :: nat
  env_sweep :: bool
  env_fresh :: jsstring

definition queueable :: "jsstring list" where
  "queueable = [js ''PING'', js ''SET'', js ''GET'', js ''DEL'', js ''EXISTS'', js ''KEYS'',
                js ''SCAN'', js ''CLIENT'']"

definition call_handler :: "env \<Rightarrow> jsstring \<Rightarrow> conn \<Rightarrow> jsstring list \<Rightarrow> store \<Rightarrow> call" where
  "call_handler e command cs params st =
     (if command = js ''PING'' then returned (ping cs st)
      else if command = js ''SCAN'' then
        (case params of
           [] \<Rightarrow> returned (scan (env_now e) (env_sweep e) cs (js ''undefined'') [] st)
         | cursor # args \<Rightarrow> returned (scan (env_now e) (env_sweep e) cs cursor args st))
      else if command = js ''CLIENT'' then
        (case params of
           [] \<Rightarrow> returned (client cs None [] st)
         | subcommand # args \<Rightarrow> returned (client cs (Some subcommand) args st))
      else exec_handler command cs params st)"

definition processCommand :: "env \<Rightarrow> jsstring list \<Rightarrow> conn \<Rightarrow> store \<Rightarrow> reply option" where
  "processCommand e args cs st =
     (case args of
        [] \<Rightarrow> Some (respError (js ''Internal error''), cs, st)
      | cmd # params \<Rightarrow>
          let command = toUpperCase cmd in
          if command = js ''MULTI'' then Some (multi (env_fresh e) cs st)
          else if command = js ''EXEC'' then exec cs st
          else if command = js ''DISCARD'' then Some (discard cs st)
          else if command \<in> set queueable then
            (if inTransaction cs then Some (QUEUED, enqueue (QCmd command params) cs, st)
             else (case call_handler e command cs params st of
                     Reply r cs' st' \<Rightarrow> Some (r, cs', st')
                   | _ \<Rightarrow> None))
          else Some (respError (js ''ERR unknown command '' @ [0x27] @ command @ [0x27]), cs, st))"

text \<open>
  A sequence of commands on one connection, served one after the other: the replies in
  order and the final states.
\<close>

fun run_commands ::
  "env \<Rightarrow> jsstring list list \<Rightarrow> conn \<Rightarrow> store \<Rightarrow> (jsstring list \<times> conn \<times> store) option" where
  "run_commands e [] cs st = Some ([], cs, st)"
| "run_commands e (args # rest) cs st =
     (case processCommand e args cs st of
        None \<Rightarrow> None
      | Some (r, cs', st') \<Rightarrow>
          (case run_commands e rest cs' st' of
             None \<Rightarrow> None
           | Some (rs, cs'', st'') \<Rightarrow> Some (r # rs, cs'', st'')))"

text \<open>
  The same with the commits of the engine as events between the commands: the replies
  of the commands in order and the final states.
\<close>

datatype event = Command "jsstring list" | EngineCommit

fun run_events ::
  "env \<Rightarrow> event list \<Rightarrow> conn \<Rightarrow> store \<Rightarrow> (jsstring list \<times> conn \<times> store) option" where
  "run_events e [] cs st = Some ([], cs, st)"
| "run_events e (EngineCommit # rest) cs st = run_events e rest cs (engine_commit st)"
| "run_events e (Command args # rest) cs st =
     (case processCommand e args cs st of
        None \<Rightarrow> None
      | Some (r, cs', st') \<Rightarrow>
          (case run_events e rest cs' st' of
             None \<Rightarrow> None
           | Some (rs, cs'', st'') \<Rightarrow> Some (r # rs, cs'', st'')))"

section \<open>Initial states and the vocabulary of the properties\<close>

text \<open>
  The state a connection gets when it is accepted, and the state of the adapter when the
  module is loaded, on an engine with the given refusals. \<open>refuse_key\<close> is an engine
  made to fail on one key, with the message of the error it throws; \<open>accept_all\<close>
  refuses nothing. \<open>store_with\<close> is a fresh adapter on an engine that holds the given
  entries.
\<close>

definition new_conn :: conn where
  "new_conn = \<lparr>inTransaction = False, commandQueue = [], clientId = None, name = None\<rparr>"

definition new_store :: "(jsstring \<Rightarrow> jsstring option) \<Rightarrow> store" where
  "new_store refuses =
     \<lparr>db = [], db_refuses = refuses, pending = [], cache = Map.empty,
      activeTransactions = Map.empty, scanCursors = Map.empty, nextCursorId = 1\<rparr>"

definition refuse_key :: "jsstring \<Rightarrow> jsstring \<Rightarrow> jsstring \<Rightarrow> jsstring option" where
  "refuse_key bad msg = (\<lambda>k. if k = bad then Some msg else None)"

definition accept_all :: "jsstring \<Rightarrow> jsstring option" where
  "accept_all = (\<lambda>k. None)"

definition store_with :: "entries \<Rightarrow> store" where
  "store_with d = (new_store accept_all)\<lparr>db := d\<rparr>"

definition env0 :: env where
  "env0 = \<lparr>env_now = 0, env_sweep = False, env_fresh = js ''client_0_abc''\<rparr>"

text \<open>
  Strings of ASCII characters, for which code units and bytes coincide, and the value
  \<open>parseRESP\<close> gives for an element of an encoded array.
\<close>

definition ascii :: "jsstring \<Rightarrow> bool" where
  "ascii s = list_all (\<lambda>c. c < 0x80) s"

definition ascii_opt :: "jsstring option \<Rightarrow> bool" where
  "ascii_opt x = (case x of None \<Rightarrow> True | Some s \<Rightarrow> ascii s)"

definition value_of :: "jsstring option \<Rightarrow> resp_value" where
  "value_of x = (case x of None \<Rightarrow> Null | Some s \<Rightarrow> Str s)"

text \<open>
  Glob matching as the specification words it: \<open>*\<close> stands for any run of characters,
  \<open>?\<close> for exactly one character, and every other character for itself. A character is
  a code unit, as everywhere in a JavaScript string.
\<close>

fun spec_glob_match :: "jsstring \<Rightarrow> jsstring \<Rightarrow> bool" where
  "spec_glob_match [] s = (s = [])"
| "spec_glob_match (p # ps) [] = (p = 0x2A \<and> spec_glob_match ps [])"
| "spec_glob_match (p # ps) (x # xs) =
     (if p = 0x2A then spec_glob_match ps (x # xs) \<or> spec_glob_match (p # ps) xs
      else (p = 0x3F \<or> p = x) \<and> spec_glob_match ps xs)"


text \<open>The subcommands the CLIENT handler knows.\<close>

definition client_subcommands :: "jsstring list" where
  "client_subcommands = [js ''SETNAME'', js ''GETNAME'', js ''ID'', js ''LIST'', js ''INFO'']"

text \<open>
  A COUNT argument the SCAN handler replaces by the default: \<open>parseInt\<close> finds no
  number in it, or the number is not positive.
\<close>

definition invalid_count :: "jsstring \<Rightarrow> bool" where
  "invalid_count a = (case parseInt a of None \<Rightarrow> True | Some n \<Rightarrow> n \<le> 0)"

text \<open>
  The loop a client runs to enumerate the keyspace, as the tests of the repository run
  it: SCAN with the cursor \<open>0\<close>, then with the cursor of each reply, until the reply's
  cursor is \<open>0\<close>; the keys of all replies are collected. Every call has its own clock
  reading and random draw, given in \<open>calls\<close>; the loop makes at most as many calls as
  the list is long, and \<open>None\<close> says that it had not seen the cursor \<open>0\<close> by then.
  No other SCAN is served in between.
\<close>

fun scan_all ::
  "(nat \<times> bool) list \<Rightarrow> jsstring \<Rightarrow> jsstring list \<Rightarrow> store \<Rightarrow> (jsstring list \<times> store) option" where
  "scan_all [] cursor args st = None"
| "scan_all ((t, sw) # calls) cursor args st =
     (case scan_page t sw cursor args st of
        ((cursorStr, ks), st') \<Rightarrow>
          if cursorStr = js ''0'' then Some (ks, st')
          else (case scan_all calls cursorStr args st' of
                  None \<Rightarrow> None
                | Some (ks', st'') \<Rightarrow> Some (ks @ ks', st'')))"


section \<open>Properties\<close>

subsection \<open>Literals and decimal numerals\<close>

lemmas lit = js_def CRLF_def toUpperCase_def upper_units_def upper_char_def

lemma show_nat_digit: "n < 10 \<Longrightarrow> show_nat n = [digit_char n]"
  by (simp add: show_nat.simps)

lemma show_nat_0: "show_nat 0 = js ''0''"
  by (simp add: show_nat.simps digit_char_def js_def)

lemma show_int_0: "show_int 0 = js ''0''"
  by (simp add: show_int_def show_nat_0)

lemma respInteger_0: "respInteger 0 = js '':0'' @ CRLF"
  by (simp add: respInteger_def show_int_0 js_def)

lemma unat_digit_char: "d < 10 \<Longrightarrow> unat (digit_char d) = 48 + d"
  by (simp only: digit_char_def unat_of_nat) simp

lemma is_digit_digit_char: "d < 10 \<Longrightarrow> is_digit (digit_char d)"
  by (simp add: is_digit_def word_le_nat_alt unat_digit_char)

lemma digit_val_digit_char: "d < 10 \<Longrightarrow> digit_val (digit_char d) = d"
  by (simp add: digit_val_def unat_digit_char)

lemma is_digit_not_space: "is_digit c \<Longrightarrow> \<not> is_space c"
  by (auto simp add: is_digit_def is_space_def word_le_nat_alt)

lemma is_digit_not_sign: "is_digit c \<Longrightarrow> c \<noteq> 0x2D \<and> c \<noteq> 0x2B"
  by (auto simp add: is_digit_def)

lemma show_nat_digits: "list_all is_digit (show_nat n) \<and> show_nat n \<noteq> []"
proof (induction n rule: show_nat.induct)
  case (1 n)
  show ?case
  proof (cases "n < 10")
    case True
    then show ?thesis by (simp add: show_nat.simps[of n] is_digit_digit_char)
  next
    case False
    with 1 show ?thesis by (simp add: show_nat.simps[of n] is_digit_digit_char)
  qed
qed

lemma dec_value_snoc: "dec_value (xs @ [c]) = 10 * dec_value xs + digit_val c"
  by (simp add: dec_value_def)

lemma dec_value_show_nat: "dec_value (show_nat n) = n"
proof (induction n rule: show_nat.induct)
  case (1 n)
  show ?case
  proof (cases "n < 10")
    case True
    then show ?thesis by (simp add: show_nat.simps[of n] dec_value_def digit_val_digit_char)
  next
    case False
    with 1 show ?thesis
      by (simp add: show_nat.simps[of n] dec_value_snoc digit_val_digit_char)
  qed
qed

lemma parseInt_show_nat: "parseInt (show_nat n) = Some (int n)"
proof -
  obtain c cs where s: "show_nat n = c # cs"
    using show_nat_digits[of n] by (cases "show_nat n") auto
  have all: "list_all is_digit (c # cs)" using show_nat_digits[of n] s by simp
  then have c: "is_digit c" by simp
  have d: "dropWhile is_space (c # cs) = c # cs" using is_digit_not_space[OF c] by simp
  have g: "strip_sign (c # cs) = (False, c # cs)"
    using is_digit_not_sign[OF c] by (simp add: strip_sign_def)
  have t: "takeWhile is_digit (c # cs) = c # cs"
    using all by (simp add: takeWhile_eq_all_conv list_all_iff)
  have v: "dec_value (c # cs) = n" using dec_value_show_nat[of n] s by simp
  show ?thesis
    unfolding parseInt_def s d g using t v by simp
qed


lemma cursor_value_show_nat: "cursor_value (show_nat n) = int n"
  by (simp add: cursor_value_def parseInt_show_nat)

lemma cursor_value_0: "cursor_value (js ''0'') = 0"
  using cursor_value_show_nat[of 0] by (simp add: show_nat_0)


lemma parseInt_10: "parseInt (js ''10'') = Some 10"
  by (simp add: parseInt_def strip_sign_def is_space_def is_digit_def dec_value_def digit_val_def js_def)

subsection \<open>The codec on ASCII strings\<close>

text \<open>
  On strings of ASCII characters a code unit is a byte, so the length \<open>respBulk\<close>
  writes is the number of bytes \<open>parseRESP\<close> reads: an encoded array of such strings
  and nulls is decoded to the same elements.
\<close>

lemma unat_ucast_low: "(c::16 word) < 0x80 \<Longrightarrow> unat (ucast c :: 8 word) = unat c"
  by (simp add: unsigned_ucast_eq take_bit_eq_mod word_less_nat_alt)

lemma unat_ucast_up: "unat (ucast (b::8 word) :: 16 word) = unat b"
proof -
  have "unat b < 2 ^ 16" using unsigned_less[of b, where 'a=nat] by simp
  then show ?thesis by (simp add: unsigned_ucast_eq take_bit_eq_mod)
qed

lemma ucast_low_less: "(c::16 word) < 0x80 \<Longrightarrow> (ucast c :: 8 word) < 0x80"
  by (simp add: word_less_nat_alt unat_ucast_low)

lemma ucast_low_back: "(c::16 word) < 0x80 \<Longrightarrow> ucast (ucast c :: 8 word) = c"
  by (simp add: word_unat_eq_iff unat_ucast_up unat_ucast_low)

lemma utf8_encode_ascii: "ascii s \<Longrightarrow> utf8_encode s = map ucast s"
  by (induction s) (simp_all add: ascii_def)

lemma utf8_decode_low: "list_all (\<lambda>b. b < 0x80) bs \<Longrightarrow> utf8_decode bs = map ucast bs"
  by (induction bs) simp_all

lemma utf8_decode_encode_ascii: "ascii s \<Longrightarrow> utf8_decode (map ucast s) = s"
proof -
  assume a: "ascii s"
  then have "list_all (\<lambda>b. b < 0x80) (map ucast s :: buffer)"
    by (induction s) (simp_all add: ascii_def ucast_low_less)
  then have "utf8_decode (map ucast s) = map ucast (map ucast s :: buffer)"
    by (rule utf8_decode_low)
  also have "\<dots> = s" using a by (induction s) (simp_all add: ascii_def ucast_low_back)
  finally show ?thesis .
qed

lemma ascii_append: "ascii (a @ b) \<longleftrightarrow> ascii a \<and> ascii b"
  by (simp add: ascii_def)

lemma utf8_encode_append: "ascii a \<Longrightarrow> utf8_encode (a @ b) = utf8_encode a @ utf8_encode b"
  by (induction a) (simp_all add: ascii_def)

lemma is_digit_low: "is_digit c \<Longrightarrow> c < 0x80"
  by (simp add: is_digit_def word_less_nat_alt word_le_nat_alt)

lemma ascii_show_nat: "ascii (show_nat n)"
  using show_nat_digits[of n] by (auto simp add: ascii_def list_all_iff is_digit_low)

lemma is_digit_not_cr: "is_digit c \<Longrightarrow> (ucast c :: byte) \<noteq> 0x0D"
proof
  assume d: "is_digit c" and e: "(ucast c :: byte) = 0x0D"
  from d have "c < 0x80" by (rule is_digit_low)
  then have "ucast (ucast c :: byte) = c" by (rule ucast_low_back)
  with e have "c = 0x0D" by simp
  with d show False by (simp add: is_digit_def)
qed

lemma digits_no_cr: "list_all (\<lambda>b. b \<noteq> 0x0D) (utf8_encode (show_nat n))"
  using show_nat_digits[of n]
  by (simp add: utf8_encode_ascii[OF ascii_show_nat] list_all_iff is_digit_not_cr)

lemma decode_digits: "utf8_decode (utf8_encode (show_nat n)) = show_nat n"
  by (simp add: utf8_encode_ascii utf8_decode_encode_ascii ascii_show_nat)

lemma crlf_from_found:
  "list_all (\<lambda>b. b \<noteq> 0x0D) ds \<Longrightarrow> crlf_from (ds @ 0x0D # 0x0A # rest) i = Some (i + length ds)"
proof (induction ds arbitrary: i)
  case Nil
  then show ?case by simp
next
  case (Cons d ds)
  then obtain x xs where "ds @ 0x0D # 0x0A # rest = x # xs" by (cases ds) auto
  with Cons show ?case by (cases ds) auto
qed

lemma indexOf_crlf_found:
  assumes "list_all (\<lambda>b. b \<noteq> 0x0D) ds"
  shows "indexOf_crlf (pre @ ds @ 0x0D # 0x0A # rest) (int (length pre)) = int (length pre + length ds)"
  using crlf_from_found[OF assms, of rest "length pre"]
  by (simp add: indexOf_crlf_def Let_def)

lemma buf_slice_middle:
  "buf_slice (pre @ ds @ rest) (int (length pre)) (int (length pre + length ds)) = ds"
  by (auto simp add: buf_slice_def slice_index_def Let_def min_def)

lemma readUntilCRLF_found:
  assumes "list_all (\<lambda>b. b \<noteq> 0x0D) ds"
  shows "readUntilCRLF (pre @ ds @ 0x0D # 0x0A # rest) (int (length pre)) =
         Some (ds, int (length pre + length ds + 2))"
  using indexOf_crlf_found[OF assms, of pre rest] buf_slice_middle[of pre ds "0x0D # 0x0A # rest"]
  by (simp add: readUntilCRLF_def Let_def)


lemma readUntilCRLF_at:
  assumes "list_all (\<lambda>b. b \<noteq> 0x0D) ds" and "buf = pre @ ds @ 0x0D # 0x0A # rest"
    and "pos = int (length pre)"
  shows "readUntilCRLF buf pos = Some (ds, pos + int (length ds) + 2)"
  using readUntilCRLF_found[OF assms(1), of pre rest] assms(2,3) by simp

lemma buf_slice_at:
  assumes "buf = pre @ ds @ rest" and "pos = int (length pre)" and "n = int (length ds)"
  shows "buf_slice buf pos (pos + n) = ds"
  using buf_slice_middle[of pre ds rest] assms by simp

lemma indexOf_crlf_at:
  assumes "buf = pre @ 0x0D # 0x0A # rest" and "pos = int (length pre)"
  shows "indexOf_crlf buf pos = pos"
  using indexOf_crlf_found[of "[]" pre rest] assms by simp

lemma parseInt_minus_one: "parseInt (utf8_decode [0x2D, 0x31]) = Some (- 1)"
  by (simp add: parseInt_def strip_sign_def is_space_def is_digit_def dec_value_def digit_val_def)

lemma parse_null_element:
  "parse_elements (Suc n) (pre @ 0x24 # 0x2D # 0x31 # 0x0D # 0x0A # rest) (int (length pre)) args =
   parse_elements n (pre @ 0x24 # 0x2D # 0x31 # 0x0D # 0x0A # rest)
     (int (length pre) + 1 + int (length [0x2D, 0x31 :: byte]) + 2) (args @ [Null])"
proof -
  define B where "B = pre @ 0x24 # 0x2D # 0x31 # 0x0D # 0x0A # rest"
  have p: "list_all (\<lambda>b::byte. b \<noteq> 0x0D) [0x2D, 0x31]" by simp
  have r: "readUntilCRLF B (int (length pre) + 1) =
           Some ([0x2D, 0x31], int (length pre) + 1 + int (length [0x2D, 0x31 :: byte]) + 2)"
    by (rule readUntilCRLF_at[OF p, where pre = "pre @ [0x24]" and rest = rest])
       (simp_all add: B_def)
  have h: "B ! nat (int (length pre)) = 0x24" by (simp add: B_def)
  have l: "\<not> int (length B) \<le> int (length pre)" by (simp add: B_def)
  show ?thesis
    unfolding B_def[symmetric]
    apply (subst parse_elements.simps(2))
    by (simp only: l h r parseInt_minus_one Let_def if_False if_True option.case prod.case simp_thms)
qed

lemma parse_string_element:
  assumes a: "ascii s"
  shows "parse_elements (Suc n)
           (pre @ 0x24 # utf8_encode (show_nat (length s)) @ 0x0D # 0x0A # utf8_encode s @
              0x0D # 0x0A # rest)
           (int (length pre)) args =
         parse_elements n
           (pre @ 0x24 # utf8_encode (show_nat (length s)) @ 0x0D # 0x0A # utf8_encode s @
              0x0D # 0x0A # rest)
           (int (length pre) + 1 + int (length (utf8_encode (show_nat (length s)))) + 2 +
              int (length s) + 2)
           (args @ [Str s])"
proof -
  define D where "D = utf8_encode (show_nat (length s))"
  define S where "S = utf8_encode s"
  define B where "B = pre @ 0x24 # D @ 0x0D # 0x0A # S @ 0x0D # 0x0A # rest"
  define pos2 where "pos2 = int (length pre) + 1 + int (length D) + 2"
  have ls: "length S = length s" using a by (simp add: S_def utf8_encode_ascii)
  have dS: "utf8_decode S = s" using a by (simp add: S_def utf8_encode_ascii utf8_decode_encode_ascii)
  have dD: "parseInt (utf8_decode D) = Some (int (length s))"
    by (simp add: D_def decode_digits parseInt_show_nat)
  have l: "\<not> int (length B) \<le> int (length pre)" by (simp add: B_def)
  have h: "B ! nat (int (length pre)) = 0x24" by (simp add: B_def)
  have r: "readUntilCRLF B (int (length pre) + 1) = Some (D, pos2)"
    unfolding pos2_def
    by (rule readUntilCRLF_at[where pre = "pre @ [0x24]" and rest = "S @ 0x0D # 0x0A # rest"])
       (simp_all add: B_def D_def digits_no_cr)
  have fits: "\<not> int (length B) < pos2 + int (length s)"
    by (simp add: B_def ls pos2_def)
  have sl: "buf_slice B pos2 (pos2 + int (length s)) = S"
    by (rule buf_slice_at[where pre = "pre @ 0x24 # D @ [0x0D, 0x0A]" and rest = "0x0D # 0x0A # rest"])
       (simp_all add: B_def ls pos2_def)
  have ix: "indexOf_crlf B (pos2 + int (length s)) = pos2 + int (length s)"
    by (rule indexOf_crlf_at[where pre = "pre @ 0x24 # D @ 0x0D # 0x0A # S" and rest = rest])
       (simp_all add: B_def ls pos2_def)
  have m1: "int (length s) \<noteq> - 1" by simp
  show ?thesis
    unfolding D_def[symmetric] S_def[symmetric] B_def[symmetric] pos2_def[symmetric]
    apply (subst parse_elements.simps(2))
    by (simp only: l h r dD fits sl ix dS m1 Let_def if_False if_True option.case
        prod.case simp_thms)
qed


lemma ascii_literals: "ascii (js ''$'')" "ascii (js ''*'')" "ascii (js ''$-1'')" "ascii CRLF"
  by (simp_all add: ascii_def js_def CRLF_def)

lemma ascii_respBulk: "ascii_opt x \<Longrightarrow> ascii (respBulk x)"
  by (cases x) (simp_all add: respBulk_def ascii_opt_def ascii_append ascii_literals ascii_show_nat)

lemma enc_bulk_None: "utf8_encode (respBulk None) = [0x24, 0x2D, 0x31, 0x0D, 0x0A]"
  by (simp add: respBulk_def js_def CRLF_def)

lemma enc_bulk_Some:
  assumes "ascii s"
  shows "utf8_encode (respBulk (Some s)) =
         0x24 # utf8_encode (show_nat (length s)) @ 0x0D # 0x0A # utf8_encode s @ [0x0D, 0x0A]"
proof -
  have "utf8_encode (respBulk (Some s)) =
        utf8_encode (js ''$'') @ utf8_encode (show_nat (length s)) @ utf8_encode CRLF @
        utf8_encode s @ utf8_encode CRLF"
    using assms
    by (simp add: respBulk_def utf8_encode_append ascii_literals ascii_show_nat)
  then show ?thesis by (simp add: js_def CRLF_def)
qed

lemma enc_concat:
  "list_all ascii_opt xs \<Longrightarrow>
   utf8_encode (concat (map respBulk xs)) = concat (map (\<lambda>x. utf8_encode (respBulk x)) xs)"
  by (induction xs) (simp_all add: utf8_encode_append ascii_respBulk)

lemma parse_encoded_elements:
  "list_all ascii_opt xs \<Longrightarrow>
   parse_elements (length xs) (pre @ concat (map (\<lambda>x. utf8_encode (respBulk x)) xs))
     (int (length pre)) args = Some (args @ map value_of xs)"
proof (induction xs arbitrary: pre args)
  case Nil
  then show ?case by simp
next
  case (Cons x xs)
  let ?R = "concat (map (\<lambda>x. utf8_encode (respBulk x)) xs)"
  from Cons.prems have xs: "list_all ascii_opt xs" by simp
  show ?case
  proof (cases x)
    case None
    have "parse_elements (Suc (length xs)) (pre @ 0x24 # 0x2D # 0x31 # 0x0D # 0x0A # ?R)
            (int (length pre)) args =
          parse_elements (length xs) ((pre @ [0x24, 0x2D, 0x31, 0x0D, 0x0A]) @ ?R)
            (int (length (pre @ [0x24, 0x2D, 0x31, 0x0D, 0x0A :: byte]))) (args @ [Null])"
      using parse_null_element[of "length xs" pre ?R args] by (simp add: ac_simps)
    also have "\<dots> = Some ((args @ [Null]) @ map value_of xs)"
      by (rule Cons.IH[OF xs])
    finally show ?thesis by (simp add: None enc_bulk_None value_of_def)
  next
    case (Some s)
    with Cons.prems have a: "ascii s" by (simp add: ascii_opt_def)
    let ?E = "0x24 # utf8_encode (show_nat (length s)) @ 0x0D # 0x0A # utf8_encode s @ [0x0D, 0x0A]"
    have ls: "length (utf8_encode s) = length s" using a by (simp add: utf8_encode_ascii)
    have "parse_elements (Suc (length xs)) (pre @ ?E @ ?R) (int (length pre)) args =
          parse_elements (length xs) ((pre @ ?E) @ ?R) (int (length (pre @ ?E))) (args @ [Str s])"
      using parse_string_element[OF a, of "length xs" pre ?R args] by (simp add: ls ac_simps)
    also have "\<dots> = Some ((args @ [Str s]) @ map value_of xs)"
      by (rule Cons.IH[OF xs])
    finally show ?thesis by (simp add: Some enc_bulk_Some[OF a] value_of_def)
  qed
qed

lemma parseRESP_respArray_ascii:
  assumes "list_all ascii_opt x"
  shows "parseRESP (utf8_encode (respArray x)) = Some (map value_of x)"
proof -
  define D where "D = utf8_encode (show_nat (length x))"
  define R where "R = concat (map (\<lambda>x. utf8_encode (respBulk x)) x)"
  define B where "B = 0x2A # D @ 0x0D # 0x0A # R"
  have enc: "utf8_encode (respArray x) = B"
  proof -
    have "utf8_encode (respArray x) =
          utf8_encode (js ''*'') @ utf8_encode (show_nat (length x)) @ utf8_encode CRLF @
          utf8_encode (concat (map respBulk x))"
      by (simp add: respArray_def utf8_encode_append ascii_literals ascii_show_nat)
    then show ?thesis by (simp add: B_def D_def R_def enc_concat[OF assms] js_def CRLF_def)
  qed
  have ne: "B \<noteq> []" and hd: "hd B = 0x2A" by (simp_all add: B_def)
  have r: "readUntilCRLF B 1 = Some (D, 1 + int (length D) + 2)"
    by (rule readUntilCRLF_at[where pre = "[0x2A]" and rest = R])
       (simp_all add: B_def D_def digits_no_cr)
  have dD: "parseInt (utf8_decode D) = Some (int (length x))"
    by (simp add: D_def decode_digits parseInt_show_nat)
  have "parse_elements (length x) ((0x2A # D @ [0x0D, 0x0A]) @ R)
          (int (length (0x2A # D @ [0x0D, 0x0A :: byte]))) [] = Some ([] @ map value_of x)"
    unfolding R_def by (rule parse_encoded_elements[OF assms])
  then have pe: "parse_elements (length x) B (1 + int (length D) + 2) [] = Some (map value_of x)"
    by (simp add: B_def ac_simps)
  show ?thesis
    unfolding enc parseRESP_def
    by (simp only: ne hd r dD pe if_False option.case prod.case simp_thms nat_int
        of_nat_less_0_iff)
qed

text \<open>
  The null marker: \<open>respBulk\<close> writes it for \<open>null\<close>, and \<open>parseRESP\<close> reads a
  declared length of \<open>-1\<close> as \<open>null\<close>.
\<close>

lemma respBulk_null: "respBulk None = js ''$-1'' @ CRLF"
  by (simp add: respBulk_def)

lemma parseRESP_null_slot:
  "parseRESP (utf8_encode (js ''*1'' @ CRLF @ js ''$-1'' @ CRLF)) = Some [Null]"
  using parseRESP_respArray_ascii[of "[None]"]
  by (simp add: respArray_def respBulk_def ascii_opt_def value_of_def show_nat.simps
      digit_char_def js_def)

text \<open>
  C3. Outside ASCII the round trip fails. The encoder writes the number of code units of
  a string as its length, the decoder counts bytes. \<open>parseRESP\<close> turns a string it is
  given into a buffer (\<open>Buffer.from\<close>, UTF-8); the array holding the one-character
  string U+00E9 is encoded with the length 1 and takes two bytes there, and decoding it
  gives \<open>null\<close>, not the array.
\<close>

theorem parseRESP_respArray_non_ascii:
  "parseRESP (utf8_encode (respArray [Some [0xE9]])) = None"
  by (simp add: parseRESP_def respArray_def respBulk_def show_nat.simps digit_char_def
      readUntilCRLF_def indexOf_crlf_def buf_slice_def slice_index_def parseInt_def
      strip_sign_def is_space_def is_digit_def dec_value_def digit_val_def lit)

subsection \<open>The dispatcher, step by step\<close>

lemma processCommand_MULTI:
  "processCommand e (js ''MULTI'' # params) cs st = Some (multi (env_fresh e) cs st)"
  by (simp add: processCommand_def lit)

lemma processCommand_EXEC:
  "processCommand e (js ''EXEC'' # params) cs st = exec cs st"
  by (simp add: processCommand_def lit)

lemma processCommand_queued:
  assumes "inTransaction cs" and "toUpperCase c \<in> set queueable"
  shows "processCommand e (c # params) cs st =
         Some (QUEUED, enqueue (QCmd (toUpperCase c) params) cs, st)"
  using assms by (auto simp add: processCommand_def queueable_def lit)

lemma queueable_GET_SET:
  "toUpperCase (js ''GET'') = js ''GET''" "toUpperCase (js ''SET'') = js ''SET''"
  "js ''GET'' \<in> set queueable" "js ''SET'' \<in> set queueable"
  by (simp_all add: queueable_def lit)

lemma beginTransaction_frame:
  "db (snd (beginTransaction c st)) = db st \<and> cache (snd (beginTransaction c st)) = cache st \<and>
   db_refuses (snd (beginTransaction c st)) = db_refuses st"
  by (simp add: beginTransaction_def Let_def)

lemma exec_finished:
  assumes "inTransaction cs"
    and "run_queue (commandQueue cs) execState st [] = Finished rs es st'"
  shows "\<exists>st''. exec cs st =
           Some (js ''*'' @ show_nat (length rs) @ CRLF @ concat rs,
                 cs\<lparr>inTransaction := False, commandQueue := []\<rparr>, st'')"
  using assms by (simp add: exec_def split: prod.splits)

lemma run_get_set_get:
  assumes "fst (store_get k st) = Some v1" and "db_refuses st k = None"
  shows "\<exists>st'. run_queue [QCmd (js ''GET'') [k], QCmd (js ''SET'') [k, v2], QCmd (js ''GET'') [k]]
           execState st [] =
         Finished [respBulk (Some v1), js ''+OK'' @ CRLF, respBulk (Some v2)] execState st'"
  using assms
  by (auto simp add: exec_handler_def returned_def get_def set_cmd_def store_get_def store_set_def
      queueOrExecute_def active_txn_def execState_def lit split: option.splits)

subsection \<open>Transactions\<close>

text \<open>
  C1. The documentation promises that a transaction is applied as a whole or not at all.
  The code does not keep the promise. Here the engine is made to fail on the key \<open>b\<close>:
  after MULTI, SET a 1, SET b 2, the reply of EXEC is an array holding \<open>+OK\<close> for the
  first write and the error of the second, and a GET after it finds the value the first
  write stored. EXEC runs every queued write at once, outside any transaction of the
  engine.
\<close>

theorem exec_keeps_writes_before_a_failed_one:
  "map_option fst
     (run_commands e
        [[js ''MULTI''], [js ''SET'', js ''a'', js ''1''], [js ''SET'', js ''b'', js ''2''],
         [js ''EXEC''], [js ''GET'', js ''a'']]
        new_conn (new_store (refuse_key (js ''b'') msg)))
   = Some [js ''+OK'' @ CRLF, js ''+QUEUED'' @ CRLF, js ''+QUEUED'' @ CRLF,
           js ''*2'' @ CRLF @ js ''+OK'' @ CRLF @ js ''-ERR '' @ msg @ CRLF,
           js ''$1'' @ CRLF @ js ''1'' @ CRLF]"
  by (simp add: processCommand_def multi_def exec_def exec_handler_def call_handler_def returned_def
      set_cmd_def get_def store_set_def store_get_def queueOrExecute_def active_txn_def
      beginTransaction_def commitTransaction_def new_conn_def new_store_def refuse_key_def
      enqueue_def execState_def queueable_def QUEUED_def respOK_def respBulk_def db_get_def
      show_nat_digit digit_char_def lit Let_def)

text \<open>
  The replies are the same when the engine commits between the commands, and in the end
  the engine holds the first write and not the second; so does the cache.
\<close>

lemma exec_writes_reach_engine:
  "map_option (\<lambda>(replies, cs, st). (replies, db st, pending st, cache st (js ''a''), cache st (js ''b'')))
     (run_events e
        [EngineCommit, Command [js ''MULTI''], EngineCommit,
         Command [js ''SET'', js ''a'', js ''1''], EngineCommit,
         Command [js ''SET'', js ''b'', js ''2''], EngineCommit,
         Command [js ''EXEC''], EngineCommit, Command [js ''GET'', js ''a''], EngineCommit]
        new_conn (new_store (refuse_key (js ''b'') msg)))
   = Some ([js ''+OK'' @ CRLF, js ''+QUEUED'' @ CRLF, js ''+QUEUED'' @ CRLF,
            js ''*2'' @ CRLF @ js ''+OK'' @ CRLF @ js ''-ERR '' @ msg @ CRLF,
            js ''$1'' @ CRLF @ js ''1'' @ CRLF],
           [(js ''a'', js ''1'')], [], Some (js ''1''), None)"
  by (simp add: processCommand_def multi_def exec_def exec_handler_def call_handler_def returned_def
      set_cmd_def get_def store_set_def store_get_def queueOrExecute_def active_txn_def
      engine_commit_def beginTransaction_def commitTransaction_def new_conn_def new_store_def
      refuse_key_def enqueue_def execState_def queueable_def QUEUED_def respOK_def respBulk_def
      db_get_def show_nat_digit digit_char_def lit Let_def)

text \<open>
  C5. On a connection outside a transaction and a key \<open>k\<close> whose value is \<open>v1\<close>
  (and which the engine accepts), the commands MULTI, GET k, SET k v2, GET k, EXEC are
  answered by OK, three times QUEUED, and the array of the three results: the bulk string
  \<open>v1\<close>, OK and the bulk string \<open>v2\<close>, in this order.
\<close>

theorem exec_get_set_get:
  assumes "\<not> inTransaction cs" and "fst (store_get k st) = Some v1" and "db_refuses st k = None"
  shows "map_option fst
           (run_commands e
              [[js ''MULTI''], [js ''GET'', k], [js ''SET'', k, v2], [js ''GET'', k], [js ''EXEC'']]
              cs st)
         = Some [respOK, QUEUED, QUEUED, QUEUED,
                 js ''*3'' @ CRLF @ respBulk (Some v1) @ js ''+OK'' @ CRLF @ respBulk (Some v2)]"
proof -
  define cid where
    "cid = (case clientId cs of None \<Rightarrow> env_fresh e | Some c \<Rightarrow> if c = [] then env_fresh e else c)"
  define st1 where "st1 = snd (beginTransaction cid st)"
  define cs1 where "cs1 = cs\<lparr>clientId := Some cid, commandQueue := [], inTransaction := True\<rparr>"
  define cs2 where "cs2 = enqueue (QCmd (js ''GET'') [k]) cs1"
  define cs3 where "cs3 = enqueue (QCmd (js ''SET'') [k, v2]) cs2"
  define cs4 where "cs4 = enqueue (QCmd (js ''GET'') [k]) cs3"
  have m: "processCommand e [js ''MULTI''] cs st = Some (respOK, cs1, st1)"
    using assms(1)
    by (simp add: processCommand_MULTI multi_def Let_def cid_def st1_def cs1_def split: prod.splits)
  have in1: "inTransaction cs1" "inTransaction cs2" "inTransaction cs3" "inTransaction cs4"
    by (simp_all add: cs1_def cs2_def cs3_def cs4_def enqueue_def)
  have s1: "processCommand e [js ''GET'', k] cs1 st1 = Some (QUEUED, cs2, st1)"
    using processCommand_queued[of cs1 "js ''GET''" e "[k]" st1] in1
    by (simp add: queueable_GET_SET cs2_def)
  have s2: "processCommand e [js ''SET'', k, v2] cs2 st1 = Some (QUEUED, cs3, st1)"
    using processCommand_queued[of cs2 "js ''SET''" e "[k, v2]" st1] in1
    by (simp add: queueable_GET_SET cs3_def)
  have s3: "processCommand e [js ''GET'', k] cs3 st1 = Some (QUEUED, cs4, st1)"
    using processCommand_queued[of cs3 "js ''GET''" e "[k]" st1] in1
    by (simp add: queueable_GET_SET cs4_def)
  have g: "fst (store_get k st1) = Some v1" and r: "db_refuses st1 k = None"
    using assms beginTransaction_frame[of cid st]
    by (simp_all add: st1_def store_get_def split: option.splits)
  have q: "commandQueue cs4 =
           [QCmd (js ''GET'') [k], QCmd (js ''SET'') [k, v2], QCmd (js ''GET'') [k]]"
    by (simp add: cs4_def cs3_def cs2_def cs1_def enqueue_def)
  obtain st2 where rq: "run_queue (commandQueue cs4) execState st1 [] =
         Finished [respBulk (Some v1), js ''+OK'' @ CRLF, respBulk (Some v2)] execState st2"
    using run_get_set_get[OF g r, of v2] q by auto
  obtain st3 where ex: "exec cs4 st1 = Some (js ''*'' @ show_nat 3 @ CRLF @
        concat [respBulk (Some v1), js ''+OK'' @ CRLF, respBulk (Some v2)],
        cs4\<lparr>inTransaction := False, commandQueue := []\<rparr>, st3)"
    using exec_finished[OF in1(4) rq] by (auto simp add: numeral_3_eq_3)
  have three: "js ''*'' @ show_nat 3 = js ''*3''"
    by (simp add: show_nat_digit digit_char_def js_def)
  show ?thesis
    by (simp add: m s1 s2 s3 processCommand_EXEC ex three[simplified append_assoc])
qed

theorem exec_get_set_get_witness:
  "\<not> inTransaction new_conn \<and>
   fst (store_get (js ''k'') (store_with [(js ''k'', js ''v1'')])) = Some (js ''v1'') \<and>
   db_refuses (store_with [(js ''k'', js ''v1'')]) (js ''k'') = None \<and>
   map_option fst
     (run_commands env0
        [[js ''MULTI''], [js ''GET'', js ''k''], [js ''SET'', js ''k'', js ''v2''],
         [js ''GET'', js ''k''], [js ''EXEC'']]
        new_conn (store_with [(js ''k'', js ''v1'')]))
   = Some [respOK, QUEUED, QUEUED, QUEUED,
           js ''*3'' @ CRLF @ respBulk (Some (js ''v1'')) @ js ''+OK'' @ CRLF @
           respBulk (Some (js ''v2''))]"
proof -
  have a: "\<not> inTransaction new_conn" by (simp add: new_conn_def)
  have b: "fst (store_get (js ''k'') (store_with [(js ''k'', js ''v1'')])) = Some (js ''v1'')"
    by (simp add: store_get_def store_with_def new_store_def db_get_def)
  have c: "db_refuses (store_with [(js ''k'', js ''v1'')]) (js ''k'') = None"
    by (simp add: store_with_def new_store_def accept_all_def)
  show ?thesis
    using a b c exec_get_set_get[OF a b c, of env0 "js ''v2''"] by simp
qed

text \<open>
  The same replies come when the engine commits between the commands, from a state in
  which no write is waiting.
\<close>

lemma engine_commit_idle: "pending st = [] \<Longrightarrow> engine_commit st = st"
  by (simp add: engine_commit_def)

lemma beginTransaction_pending: "pending (snd (beginTransaction c st)) = pending st"
  by (simp add: beginTransaction_def Let_def)

lemma exec_get_set_get_with_commits:
  assumes "\<not> inTransaction cs" and "fst (store_get k st) = Some v1" and "db_refuses st k = None"
    and "pending st = []"
  shows "map_option fst
           (run_events e
              [EngineCommit, Command [js ''MULTI''], EngineCommit, Command [js ''GET'', k],
               EngineCommit, Command [js ''SET'', k, v2], EngineCommit, Command [js ''GET'', k],
               EngineCommit, Command [js ''EXEC''], EngineCommit]
              cs st)
         = Some [respOK, QUEUED, QUEUED, QUEUED,
                 js ''*3'' @ CRLF @ respBulk (Some v1) @ js ''+OK'' @ CRLF @ respBulk (Some v2)]"
proof -
  define cid where
    "cid = (case clientId cs of None \<Rightarrow> env_fresh e | Some c \<Rightarrow> if c = [] then env_fresh e else c)"
  define st1 where "st1 = snd (beginTransaction cid st)"
  define cs1 where "cs1 = cs\<lparr>clientId := Some cid, commandQueue := [], inTransaction := True\<rparr>"
  define cs2 where "cs2 = enqueue (QCmd (js ''GET'') [k]) cs1"
  define cs3 where "cs3 = enqueue (QCmd (js ''SET'') [k, v2]) cs2"
  define cs4 where "cs4 = enqueue (QCmd (js ''GET'') [k]) cs3"
  have c0: "engine_commit st = st" using assms(4) by (rule engine_commit_idle)
  have c1: "engine_commit st1 = st1"
    using assms(4) by (simp add: st1_def engine_commit_idle beginTransaction_pending)
  have m: "processCommand e [js ''MULTI''] cs st = Some (respOK, cs1, st1)"
    using assms(1)
    by (simp add: processCommand_MULTI multi_def Let_def cid_def st1_def cs1_def split: prod.splits)
  have in1: "inTransaction cs1" "inTransaction cs2" "inTransaction cs3" "inTransaction cs4"
    by (simp_all add: cs1_def cs2_def cs3_def cs4_def enqueue_def)
  have s1: "processCommand e [js ''GET'', k] cs1 st1 = Some (QUEUED, cs2, st1)"
    using processCommand_queued[of cs1 "js ''GET''" e "[k]" st1] in1
    by (simp add: queueable_GET_SET cs2_def)
  have s2: "processCommand e [js ''SET'', k, v2] cs2 st1 = Some (QUEUED, cs3, st1)"
    using processCommand_queued[of cs2 "js ''SET''" e "[k, v2]" st1] in1
    by (simp add: queueable_GET_SET cs3_def)
  have s3: "processCommand e [js ''GET'', k] cs3 st1 = Some (QUEUED, cs4, st1)"
    using processCommand_queued[of cs3 "js ''GET''" e "[k]" st1] in1
    by (simp add: queueable_GET_SET cs4_def)
  have g: "fst (store_get k st1) = Some v1" and r: "db_refuses st1 k = None"
    using assms beginTransaction_frame[of cid st]
    by (simp_all add: st1_def store_get_def split: option.splits)
  have q: "commandQueue cs4 =
           [QCmd (js ''GET'') [k], QCmd (js ''SET'') [k, v2], QCmd (js ''GET'') [k]]"
    by (simp add: cs4_def cs3_def cs2_def cs1_def enqueue_def)
  obtain st2 where rq: "run_queue (commandQueue cs4) execState st1 [] =
         Finished [respBulk (Some v1), js ''+OK'' @ CRLF, respBulk (Some v2)] execState st2"
    using run_get_set_get[OF g r, of v2] q by auto
  obtain st3 where ex: "exec cs4 st1 = Some (js ''*'' @ show_nat 3 @ CRLF @
        concat [respBulk (Some v1), js ''+OK'' @ CRLF, respBulk (Some v2)],
        cs4\<lparr>inTransaction := False, commandQueue := []\<rparr>, st3)"
    using exec_finished[OF in1(4) rq] by (auto simp add: numeral_3_eq_3)
  have three: "js ''*'' @ show_nat 3 = js ''*3''"
    by (simp add: show_nat_digit digit_char_def js_def)
  show ?thesis
    by (simp add: c0 c1 m s1 s2 s3 processCommand_EXEC ex three[simplified append_assoc])
qed

text \<open>
  C7. A second MULTI on a connection that is inside a transaction is answered by an error
  and changes neither the connection (flag, queue) nor the adapter (the operation log),
  called directly or through the dispatcher; and \<open>beginTransaction\<close> for a client that
  has a transaction in the table answers \<open>null\<close> and leaves the table as it is. The
  table maps a client identifier to one transaction state.
\<close>

theorem multi_not_nested:
  "(inTransaction cs \<longrightarrow>
      multi fr cs st = (js ''-ERR MULTI calls can not be nested'' @ CRLF, cs, st) \<and>
      processCommand e (js ''MULTI'' # params) cs st =
        Some (js ''-ERR MULTI calls can not be nested'' @ CRLF, cs, st)) \<and>
   (activeTransactions st c \<noteq> None \<longrightarrow> beginTransaction c st = (None, st))"
  by (simp add: multi_def beginTransaction_def processCommand_MULTI)

theorem multi_not_nested_witness:
  "inTransaction (fst (snd (multi (js ''c1'') new_conn (new_store accept_all)))) \<and>
   activeTransactions (snd (snd (multi (js ''c1'') new_conn (new_store accept_all)))) (js ''c1'') \<noteq> None \<and>
   multi (js ''c2'') (fst (snd (multi (js ''c1'') new_conn (new_store accept_all))))
         (snd (snd (multi (js ''c1'') new_conn (new_store accept_all)))) =
     (js ''-ERR MULTI calls can not be nested'' @ CRLF,
      fst (snd (multi (js ''c1'') new_conn (new_store accept_all))),
      snd (snd (multi (js ''c1'') new_conn (new_store accept_all)))) \<and>
   beginTransaction (js ''c1'') (snd (snd (multi (js ''c1'') new_conn (new_store accept_all)))) =
     (None, snd (snd (multi (js ''c1'') new_conn (new_store accept_all))))"
proof -
  have a: "inTransaction (fst (snd (multi (js ''c1'') new_conn (new_store accept_all))))"
    by (simp add: multi_def new_conn_def beginTransaction_def Let_def)
  have b: "activeTransactions (snd (snd (multi (js ''c1'') new_conn (new_store accept_all))))
             (js ''c1'') \<noteq> None"
    by (simp add: multi_def new_conn_def new_store_def beginTransaction_def Let_def)
  show ?thesis
    using a b
      multi_not_nested[of "fst (snd (multi (js ''c1'') new_conn (new_store accept_all)))"
        "js ''c2''" "snd (snd (multi (js ''c1'') new_conn (new_store accept_all)))" env0 "[]"
        "js ''c1''"]
    by simp
qed

subsection \<open>Single commands\<close>

text \<open>
  C8. DEL outside a transaction, of a key that is neither in the engine nor in the cache,
  replies \<open>:0\<close> and returns the connection and the adapter unchanged (engine, cache and
  everything else); so does DEL sent through the dispatcher.
\<close>

theorem del_absent_key:
  assumes "\<not> inTransaction cs" and "db_get (db st) key = None" and "cache st key = None"
  shows "del cs key st = (js '':0'' @ CRLF, cs, st) \<and>
         processCommand e [js ''DEL'', key] cs st = Some (js '':0'' @ CRLF, cs, st)"
  using assms
  by (simp add: del_def store_exists_def respInteger_0 processCommand_def call_handler_def
      exec_handler_def returned_def queueable_def lit)

theorem del_absent_key_witness:
  "\<not> inTransaction new_conn \<and>
   db_get (db (store_with [(js ''a'', js ''1'')])) (js ''b'') = None \<and>
   cache (store_with [(js ''a'', js ''1'')]) (js ''b'') = None \<and>
   del new_conn (js ''b'') (store_with [(js ''a'', js ''1'')]) =
     (js '':0'' @ CRLF, new_conn, store_with [(js ''a'', js ''1'')]) \<and>
   processCommand env0 [js ''DEL'', js ''b''] new_conn (store_with [(js ''a'', js ''1'')]) =
     Some (js '':0'' @ CRLF, new_conn, store_with [(js ''a'', js ''1'')])"
proof -
  have a: "\<not> inTransaction new_conn" by (simp add: new_conn_def)
  have b: "db_get (db (store_with [(js ''a'', js ''1'')])) (js ''b'') = None"
    by (simp add: store_with_def new_store_def db_get_def js_def)
  have c: "cache (store_with [(js ''a'', js ''1'')]) (js ''b'') = None"
    by (simp add: store_with_def new_store_def)
  show ?thesis
    using a b c del_absent_key[OF a b c, of env0] by simp
qed

text \<open>
  C10, as amended. CLIENT with a subcommand that is not empty and, in upper case, is none
  of SETNAME, GETNAME, ID, LIST and INFO replies \<open>+OK\<close> and returns the connection
  (name, client identifier, transaction flag, queue) and the adapter unchanged; so does
  the command sent through the dispatcher on a connection outside a transaction.
\<close>

theorem client_unknown_subcommand:
  assumes "sub \<noteq> []" and "toUpperCase sub \<notin> set client_subcommands"
  shows "client cs (Some sub) args st = (js ''+OK'' @ CRLF, cs, st) \<and>
         (\<not> inTransaction cs \<longrightarrow>
            processCommand e (js ''CLIENT'' # sub # args) cs st = Some (js ''+OK'' @ CRLF, cs, st))"
proof -
  have c: "client cs (Some sub) args st = (js ''+OK'' @ CRLF, cs, st)"
    using assms by (simp add: client_def client_subcommands_def truthy_def respOK_def)
  have "\<not> inTransaction cs \<Longrightarrow>
        processCommand e (js ''CLIENT'' # sub # args) cs st = Some (js ''+OK'' @ CRLF, cs, st)"
    using c by (simp add: processCommand_def call_handler_def returned_def queueable_def lit)
  with c show ?thesis by simp
qed

theorem client_unknown_subcommand_witness:
  "js ''kill'' \<noteq> [] \<and> toUpperCase (js ''kill'') \<notin> set client_subcommands \<and>
   [0xE9] \<noteq> [] \<and> toUpperCase [0xE9] \<notin> set client_subcommands \<and>
   \<not> inTransaction new_conn \<and>
   client new_conn (Some (js ''kill'')) [js ''x''] (new_store accept_all) =
     (js ''+OK'' @ CRLF, new_conn, new_store accept_all) \<and>
   processCommand env0 [js ''CLIENT'', js ''kill'', js ''x''] new_conn (new_store accept_all) =
     Some (js ''+OK'' @ CRLF, new_conn, new_store accept_all) \<and>
   client new_conn (Some [0xE9]) [] (new_store accept_all) =
     (js ''+OK'' @ CRLF, new_conn, new_store accept_all)"
proof -
  have a: "js ''kill'' \<noteq> []" by (simp add: js_def)
  have b: "toUpperCase (js ''kill'') \<notin> set client_subcommands"
    by (simp add: client_subcommands_def lit)
  have a': "[0xE9] \<noteq> ([] :: jsstring)" by simp
  have b': "toUpperCase [0xE9] \<notin> set client_subcommands"
    by (simp add: client_subcommands_def lit)
  have d: "\<not> inTransaction new_conn" by (simp add: new_conn_def)
  show ?thesis
    using a b a' b' d
      client_unknown_subcommand[OF a b, of new_conn "[js ''x'']" "new_store accept_all" env0]
      client_unknown_subcommand[OF a' b', of new_conn "[]" "new_store accept_all" env0]
    by simp
qed

text \<open>
  The subcommands that reach the five branches are not the ASCII spellings only: the
  upper case of U+0131 is \<open>I\<close>, so that the subcommand made of U+0131 and \<open>d\<close> is
  answered as \<open>ID\<close> is.
\<close>

lemma client_dotless_i:
  "toUpperCase [0x131, 0x64] = js ''ID'' \<and>
   fst (client new_conn (Some [0x131, 0x64]) [] (new_store accept_all)) = js '':0'' @ CRLF"
  by (simp add: client_def truthy_def new_conn_def lit)

text \<open>
  C10 as stated fails for the empty subcommand: it is outside the five names, and the
  reply is the error for a missing subcommand.
\<close>

theorem client_empty_subcommand:
  "toUpperCase [] \<notin> set client_subcommands \<and>
   fst (client new_conn (Some []) [] (new_store accept_all)) =
     js ''-ERR wrong number of arguments for 'client' command'' @ CRLF \<and>
   fst (client new_conn (Some []) [] (new_store accept_all)) \<noteq> js ''+OK'' @ CRLF"
  by (simp add: client_def truthy_def client_subcommands_def lit)

subsection \<open>The cache and the engine\<close>

text \<open>
  A write is in the cache at once and in the engine after the next commit: KEYS, which
  reads the engine, does not list a key right after its SET, and lists it once the
  engine has committed.
\<close>

lemma keys_after_set:
  "map_option fst
     (run_events e
        [Command [js ''SET'', js ''a'', js ''1''], Command [js ''KEYS'', js ''*''],
         EngineCommit, Command [js ''KEYS'', js ''*'']]
        new_conn (new_store accept_all))
   = Some [js ''+OK'' @ CRLF, js ''*0'' @ CRLF,
           js ''*1'' @ CRLF @ js ''$1'' @ CRLF @ js ''a'' @ CRLF]"
  by (simp add: processCommand_def call_handler_def exec_handler_def returned_def
      set_cmd_def keys_def store_set_def store_keys_def queueOrExecute_def active_txn_def
      engine_commit_def new_conn_def new_store_def accept_all_def queueable_def respArray_def
      respBulk_def db_getKeys_def globToRegex_def glob_item_def line_terminator_def
      show_nat_digit digit_char_def lit Let_def)

text \<open>
  What a transaction of the adapter does with a write the engine refuses: the commit
  answers \<open>true\<close>; when the engine commits, the callback writes \<open>a\<close>, ends at the
  refused \<open>b\<close>, and the engine and the cache both keep \<open>a\<close>.
\<close>

lemma commit_with_refused_write:
  "(let st0 = new_store (refuse_key (js ''b'') msg);
        (t, st1) = beginTransaction (js ''c1'') st0;
        (r1, st2) = store_set (js ''a'') (js ''1'') (Some (js ''c1'')) st1;
        (r2, st3) = store_set (js ''b'') (js ''2'') (Some (js ''c1'')) st2;
        (ok, st4) = commitTransaction (Some (js ''c1'')) st3;
        st5 = engine_commit st4
    in (r1, r2, ok, db st4, cache st4 (js ''a''), db st5, cache st5 (js ''a''), cache st5 (js ''b'')))
   = (Inr True, Inr True, True, [], None, [(js ''a'', js ''1'')], Some (js ''1''), None)"
  by (simp add: new_store_def refuse_key_def beginTransaction_def store_set_def queueOrExecute_def
      active_txn_def push_operation_def commitTransaction_def engine_commit_def Let_def js_def)

text \<open>
  C6. The cache is meant to mirror the engine once the writes have reached it. DEL of a
  stored key breaks this. On a fresh store: SET a 1, and the engine commits; DEL a hands
  the remove to the engine and takes the key out of the cache, but the handler then
  checks that the key is gone, the engine still answers with the value, and
  \<open>store.exists\<close> puts it back into the cache; the reply is \<open>:0\<close>. The engine commits
  the remove. Now nothing is waiting, the engine has no entry for \<open>a\<close>, the cache has
  \<open>1\<close>, and GET a answers \<open>1\<close>.
\<close>

theorem del_leaves_cache_ahead:
  "map_option (\<lambda>(replies, cs, st).
       (replies, pending st, db_get (db st) (js ''a''), cache st (js ''a'')))
     (run_events e
        [Command [js ''SET'', js ''a'', js ''1''], EngineCommit,
         Command [js ''DEL'', js ''a''], EngineCommit,
         Command [js ''GET'', js ''a'']]
        new_conn (new_store accept_all))
   = Some ([js ''+OK'' @ CRLF, js '':0'' @ CRLF, js ''$1'' @ CRLF @ js ''1'' @ CRLF],
           [], None, Some (js ''1''))"
  by (simp add: processCommand_def call_handler_def exec_handler_def returned_def
      set_cmd_def get_def del_def store_set_def store_get_def store_exists_def store_del_def
      queueOrExecute_def active_txn_def engine_commit_def new_conn_def new_store_def accept_all_def
      queueable_def respBulk_def respInteger_0 db_get_def db_remove_def
      show_nat_digit digit_char_def lit Let_def)

subsection \<open>The reply of SCAN\<close>

text \<open>
  C2. The wire grammar ends every line with CR LF. The reply of SCAN does not: whatever
  the arguments and the state, it starts with \<open>*2\<close> followed by the four code units
  U+00A5, \<open>r\<close>, U+00A5, \<open>n\<close>.
\<close>

theorem scan_reply_first_line:
  "\<exists>rest. fst (scan t sw cs cursor args st) = js ''*2'' @ [0xA5, 0x72, 0xA5, 0x6E] @ rest"
  by (simp add: scan_def scan_format_def scan_eol_def split: prod.splits)

text \<open>The whole reply to \<open>SCAN 0\<close> on an empty keyspace; it holds no CR and no LF.\<close>

lemma scan_reply_empty_keyspace:
  "fst (scan t sw cs (js ''0'') [] (new_store accept_all)) =
     js ''*2'' @ scan_eol @ js ''$1'' @ scan_eol @ js ''0'' @ scan_eol @ js ''*0'' @ scan_eol"
  by (simp add: scan_def scan_page_def scan_format_def store_scan_def cursor_value_0 new_store_def
      db_getKeys_def filterKeysForTestCases_def show_nat.simps digit_char_def Let_def js_def)

subsection \<open>The COUNT option of SCAN\<close>

lemma count_option_invalid: "invalid_count x \<Longrightarrow> count_option x = count_option (js ''10'')"
  by (auto simp add: invalid_count_def count_option_def parseInt_10 split: option.splits)

text \<open>
  C9, as amended. When \<open>parseInt\<close> finds no number in the COUNT argument, or the number
  is not positive, SCAN gives the reply and the states that it gives with COUNT 10, with
  COUNT as the first option or after a MATCH option; and the reply is an array, not an
  error.
\<close>

theorem scan_invalid_count:
  assumes "toUpperCase kw = js ''COUNT''" and "invalid_count x"
  shows "scan t sw cs cursor (kw # x # rest) st = scan t sw cs cursor (kw # js ''10'' # rest) st \<and>
         (toUpperCase m = js ''MATCH'' \<longrightarrow>
            scan t sw cs cursor (m # p # kw # x # rest) st =
            scan t sw cs cursor (m # p # kw # js ''10'' # rest) st) \<and>
         take 1 (fst (scan t sw cs cursor (kw # x # rest) st)) = js ''*''"
  using assms
  by (simp add: scan_def scan_page_def count_option_invalid scan_format_def js_def split: prod.splits)

theorem scan_invalid_count_witness:
  "toUpperCase (js ''count'') = js ''COUNT'' \<and> invalid_count (js ''abc'') \<and>
   invalid_count (js ''-3'') \<and> toUpperCase (js ''match'') = js ''MATCH'' \<and>
   scan 0 False new_conn (js ''0'') [js ''count'', js ''abc''] (store_with [(js ''a'', js ''1'')]) =
   scan 0 False new_conn (js ''0'') [js ''count'', js ''10''] (store_with [(js ''a'', js ''1'')]) \<and>
   scan 0 False new_conn (js ''0'') [js ''match'', js ''a*'', js ''count'', js ''-3'']
     (store_with [(js ''a'', js ''1'')]) =
   scan 0 False new_conn (js ''0'') [js ''match'', js ''a*'', js ''count'', js ''10'']
     (store_with [(js ''a'', js ''1'')])"
proof -
  have a: "toUpperCase (js ''count'') = js ''COUNT''" by (simp add: lit)
  have b: "invalid_count (js ''abc'')"
    by (simp add: invalid_count_def parseInt_def strip_sign_def is_space_def is_digit_def js_def)
  have c: "invalid_count (js ''-3'')"
    by (simp add: invalid_count_def parseInt_def strip_sign_def is_space_def is_digit_def
        dec_value_def digit_val_def js_def)
  have d: "toUpperCase (js ''match'') = js ''MATCH''" by (simp add: lit)
  show ?thesis
    using a b c d
      scan_invalid_count[OF a b, of 0 False new_conn "js ''0''" "[]"
        "store_with [(js ''a'', js ''1'')]" "js ''match''" "js ''a*''"]
      scan_invalid_count[OF a c, of 0 False new_conn "js ''0''" "[]"
        "store_with [(js ''a'', js ''1'')]" "js ''match''" "js ''a*''"]
    by simp
qed

text \<open>
  C9 as stated fails for an argument that starts with digits: \<open>1x\<close> is not a number,
  and SCAN takes it for the count 1, so that the reply differs from the reply to COUNT 10.
\<close>

theorem scan_count_partly_numeric:
  "fst (scan 0 False new_conn (js ''0'') [js ''COUNT'', js ''1x'']
          (store_with [(js ''a'', js ''1''), (js ''b'', js ''2'')])) \<noteq>
   fst (scan 0 False new_conn (js ''0'') [js ''COUNT'', js ''10'']
          (store_with [(js ''a'', js ''1''), (js ''b'', js ''2'')]))"
  by (simp add: scan_def scan_page_def scan_format_def store_scan_def count_option_def cursor_value_def
      parseInt_def strip_sign_def is_space_def is_digit_def dec_value_def digit_val_def
      store_with_def new_store_def db_getKeys_def globToRegex_def glob_item_def filterKeysForTestCases_def
      show_nat.simps digit_char_def scan_eol_def line_terminator_def Let_def lit)

subsection \<open>One page of the scan\<close>




lemma sweep_keeps_new:
  "createdAt c = t \<Longrightarrow> sweep_cursors t (m(i \<mapsto> c)) i = Some c"
  by (simp add: sweep_cursors_def CURSOR_TTL_def)




subsection \<open>The whole scan\<close>









text \<open>
  The two other conditions of the amended statement are needed as well. The matcher of
  the code is a regular expression in which \<open>.\<close> does not match a line terminator: the
  key made of \<open>a\<close> and a line feed matches \<open>*\<close> and is not returned. And the cursor a
  reply hands out lives in a registry that every SCAN call may sweep: the sweep of
  another call can take a cursor older than five minutes out of it, and the loop then
  starts again from the first key.
\<close>

lemma scan_misses_key_with_line_feed:
  "spec_glob_match (js ''*'') [0x61, 0x0A] \<and>
   map_option fst
     (scan_all [(0, False), (0, False)] (js ''0'') []
        (store_with [([0x61, 0x0A], js ''v'')])) = Some []"
  by (simp add: scan_page_def store_scan_def cursor_value_def parseInt_def strip_sign_def
      is_space_def is_digit_def dec_value_def digit_val_def store_with_def new_store_def
      db_getKeys_def globToRegex_def glob_item_def filterKeysForTestCases_def
      show_nat.simps digit_char_def line_terminator_def Let_def lit)

end
